theory Spec2Isabelle
  imports Complex_Main "HOL-Library.Sublist"
begin

section \<open>Python values\<close>

text \<open>
  A Python \<^verbatim>\<open>str\<close> is a sequence of Unicode code points; it is modelled as a list of
  natural numbers, so that \<open>length\<close> counts what \<^verbatim>\<open>len\<close> counts, also for the IPA
  symbols. \<open>str\<close> turns an ASCII literal into such a string.
\<close>

type_synonym pystr = "nat list"

definition str :: "string \<Rightarrow> pystr" where
  "str s = map of_char s"

text \<open>The exceptions the comparison code can raise.\<close>

datatype error = IndexError | ValueError | ZeroDivisionError | AttributeError

text \<open>
  \<^verbatim>\<open>str.isspace\<close> for one code point (also what \<^verbatim>\<open>str.split()\<close>, \<^verbatim>\<open>str.strip()\<close> and the
  regular expression class \<^verbatim>\<open>\s\<close> use).
\<close>

definition isspace :: "nat \<Rightarrow> bool" where
  "isspace c \<longleftrightarrow>
     (9 \<le> c \<and> c \<le> 13) \<or> (28 \<le> c \<and> c \<le> 32) \<or> c = 133 \<or> c = 160 \<or> c = 5760 \<or>
     (8192 \<le> c \<and> c \<le> 8202) \<or> c = 8232 \<or> c = 8233 \<or> c = 8239 \<or> c = 8287 \<or> c = 12288"

text \<open>\<^verbatim>\<open>name.split()\<close>: the maximal runs of non-whitespace.\<close>

fun split_acc :: "pystr \<Rightarrow> pystr \<Rightarrow> pystr list" where
  "split_acc cur [] = (if cur = [] then [] else [cur])"
| "split_acc cur (c # cs) =
     (if isspace c then (if cur = [] then split_acc [] cs else cur # split_acc [] cs)
      else split_acc (cur @ [c]) cs)"

definition split :: "pystr \<Rightarrow> pystr list" where
  "split s = split_acc [] s"

text \<open>\<^verbatim>\<open>' '.join(words)\<close>.\<close>

fun join :: "pystr list \<Rightarrow> pystr" where
  "join [] = []"
| "join [w] = w"
| "join (w # ws) = w @ 32 # join ws"

section \<open>The comparator's reference data and library functions\<close>

text \<open>
  A rewrite rule as \<^verbatim>\<open>__init__\<close> leaves it, \<^verbatim>\<open>rule[0]\<close> to \<^verbatim>\<open>rule[4]\<close>: the two meats, the
  two lists of breads (the placeholders already replaced by their lists) and the minimum
  word length.
\<close>

record rule =
  meatA :: pystr
  meatB :: pystr
  bottomBreads :: "pystr list"
  topBreads :: "pystr list"
  minLen :: int

text \<open>
  The attributes of a \<^verbatim>\<open>NameComparator\<close> after \<^verbatim>\<open>__init__\<close>, read from the JSON files, and
  the functions of the libraries the code calls (\<^verbatim>\<open>fuzz.ratio\<close>, \<^verbatim>\<open>fuzz.partial_ratio\<close>,
  \<^verbatim>\<open>unidecode\<close>). Neither the files nor the libraries are part of the sources, so they are
  parameters of every definition. \<open>fround\<close> rounds a real number to the nearest
  floating-point number, as every operation on Python's \<^verbatim>\<open>float\<close> does. \<open>set_order\<close> is the
  order in which Python iterates over \<^verbatim>\<open>set(xs)\<close>.
\<close>

record env =
  ratio :: "pystr \<Rightarrow> pystr \<Rightarrow> int"
  partial_ratio :: "pystr \<Rightarrow> pystr \<Rightarrow> int"
  unidecode :: "pystr \<Rightarrow> pystr"
  fround :: "real \<Rightarrow> real"
  set_order :: "pystr list \<Rightarrow> pystr list"
  namesToIpa :: "pystr \<Rightarrow> pystr option"
  syllableToIpa :: "pystr \<Rightarrow> pystr option"
  topSurnames :: "pystr list"
  ipaRules :: "rule list"
  spellingRules :: "rule list"
  nicknameSets :: "pystr list list"

section \<open>The word-pair aligner\<close>

text \<open>
  One entry of \<^verbatim>\<open>scores\<close>: the index of the word in the first name, the index of the word
  in the second name, and the score. The source labels the indices with the strings
  \<^verbatim>\<open>"i words1"\<close> and \<^verbatim>\<open>"j words2"\<close> and strips the labels again; the labels of two entries
  are equal exactly when the indices are, so the model keeps the numbers.
\<close>

type_synonym triple = "nat \<times> nat \<times> int"

text \<open>
  The body of the two nested loops of \<^verbatim>\<open>_findWhichWordsMatchAndHowWell\<close>. \<^verbatim>\<open>word0[0]\<close> is
  \<open>hd word0\<close>: the words come from \<open>split\<close> and are never empty.
\<close>

definition pairScore :: "('a env_scheme) \<Rightarrow> pystr \<Rightarrow> pystr \<Rightarrow> int" where
  "pairScore env word0 word1 =
     (let rScore = ratio env word0 word1;
          prScore = partial_ratio env word0 word1;
          score = max rScore prScore;
          score = (if hd word0 \<noteq> hd word1 then rScore else score)
      in if length word0 = 1 \<or> length word1 = 1
         then (if hd word0 = hd word1 then 100 else 0)
         else score)"

definition allScores :: "('a env_scheme) \<Rightarrow> pystr list \<Rightarrow> pystr list \<Rightarrow> triple list" where
  "allScores env words0 words1 =
     concat (map (\<lambda>(i, word0). map (\<lambda>(j, word1). (i, j, pairScore env word0 word1))
                                    (enumerate 0 words1))
                 (enumerate 0 words0))"

text \<open>\<^verbatim>\<open>itertools.combinations(xs, k)\<close>, in the order in which Python yields them.\<close>

fun combinations :: "'a list \<Rightarrow> nat \<Rightarrow> 'a list list" where
  "combinations xs 0 = [[]]"
| "combinations [] (Suc k) = []"
| "combinations (x # xs) (Suc k) = map ((#) x) (combinations xs k) @ combinations xs (Suc k)"

definition validCombination :: "triple list \<Rightarrow> bool" where
  "validCombination c \<longleftrightarrow>
     card (set (map fst c)) = length c \<and> card (set (map (fst \<circ> snd) c)) = length c"

definition comboSum :: "triple list \<Rightarrow> int" where
  "comboSum c = sum_list (map (\<lambda>y. snd (snd y)) c)"

text \<open>\<^verbatim>\<open>max(xs, key=key)\<close>: the first element with the largest key; ValueError on \<open>[]\<close>.\<close>

fun pymax :: "('a \<Rightarrow> int) \<Rightarrow> 'a list \<Rightarrow> error + 'a" where
  "pymax key [] = Inl ValueError"
| "pymax key (x # xs) = Inr (fold (\<lambda>y best. if key best < key y then y else best) xs x)"

definition letterCount :: "pystr list \<Rightarrow> pystr list \<Rightarrow> triple list \<Rightarrow> nat" where
  "letterCount words0 words1 combo =
     sum_list (map (\<lambda>(x, y, _). length (words0 ! x) + length (words1 ! y)) combo)"

text \<open>The last loop: the first combination with the largest letter count, if above 0.\<close>

definition mostLetters :: "pystr list \<Rightarrow> pystr list \<Rightarrow> triple list list \<Rightarrow> triple list" where
  "mostLetters words0 words1 maxCombinations =
     fst (fold (\<lambda>combo (bestCombo, maxLetterCount).
                  if maxLetterCount < letterCount words0 words1 combo
                  then (combo, letterCount words0 words1 combo)
                  else (bestCombo, maxLetterCount))
               maxCombinations ([], 0))"

definition findWhichWordsMatchAndHowWell ::
  "('a env_scheme) \<Rightarrow> pystr \<Rightarrow> pystr \<Rightarrow> error + triple list" where
  "findWhichWordsMatchAndHowWell env name0 name1 =
     (let words0 = split name0;
          words1 = split name1;
          scores = allScores env words0 words1;
          minLength = min (length words0) (length words1);
          validCombinations = filter validCombination (combinations scores minLength)
      in case pymax comboSum validCombinations of
           Inl e \<Rightarrow> Inl e
         | Inr best \<Rightarrow>
             Inr (mostLetters words0 words1
                    (filter (\<lambda>combo. comboSum combo = comboSum best) validCombinations)))"

text \<open>The rows of the score table from word \<open>m\<close> of the first name on.\<close>

definition scoreRows :: "('a env_scheme) \<Rightarrow> pystr list \<Rightarrow> nat \<Rightarrow> pystr list \<Rightarrow> triple list" where
  "scoreRows env words1 m ws =
     concat (map (\<lambda>(i, word0). map (\<lambda>(j, word1). (i, j, pairScore env word0 word1))
                                    (enumerate 0 words1))
                 (enumerate m ws))"

section \<open>Exceptions and indexing\<close>

text \<open>A statement that may raise, followed by the rest of the block.\<close>

definition bindE :: "error + 'a \<Rightarrow> ('a \<Rightarrow> error + 'b) \<Rightarrow> error + 'b" where
  "bindE m f = (case m of Inl e \<Rightarrow> Inl e | Inr x \<Rightarrow> f x)"

text \<open>\<^verbatim>\<open>xs[i]\<close> for an index that is not negative: IndexError out of range.\<close>

definition index :: "'a list \<Rightarrow> nat \<Rightarrow> error + 'a" where
  "index xs i = (if i < length xs then Inr (xs ! i) else Inl IndexError)"

text \<open>\<^verbatim>\<open>xs[i] = v\<close>: IndexError out of range.\<close>

definition setIndex :: "'a list \<Rightarrow> nat \<Rightarrow> 'a \<Rightarrow> error + 'a list" where
  "setIndex xs i v = (if i < length xs then Inr (xs[i := v]) else Inl IndexError)"

section \<open>String operations\<close>

text \<open>\<^verbatim>\<open>sub in s\<close>.\<close>

fun contains :: "pystr \<Rightarrow> pystr \<Rightarrow> bool" where
  "contains sub [] = (sub = [])"
| "contains sub (c # cs) = (prefix sub (c # cs) \<or> contains sub cs)"

text \<open>
  \<^verbatim>\<open>s.replace(old, new)\<close>: the occurrences of \<open>old\<close> are replaced from left to right,
  without overlap; an empty \<open>old\<close> matches before every character and at the end.
\<close>

fun replaceNonempty :: "pystr \<Rightarrow> pystr \<Rightarrow> pystr \<Rightarrow> pystr" where
  "replaceNonempty old new [] = []"
| "replaceNonempty old new (c # cs) =
     (if old \<noteq> [] \<and> prefix old (c # cs)
      then new @ replaceNonempty old new (drop (length old) (c # cs))
      else c # replaceNonempty old new cs)"

definition replace :: "pystr \<Rightarrow> pystr \<Rightarrow> pystr \<Rightarrow> pystr" where
  "replace old new s =
     (if old = [] then new @ concat (map (\<lambda>c. c # new) s) else replaceNonempty old new s)"

section \<open>Word pairs and the name editor\<close>

text \<open>\<^verbatim>\<open>_getPairIndicesAndWords\<close>.\<close>

fun pairsWithWords ::
  "pystr list \<Rightarrow> pystr list \<Rightarrow> triple list \<Rightarrow> error + (nat \<times> nat \<times> pystr \<times> pystr) list" where
  "pairsWithWords words0 words1 [] = Inr []"
| "pairsWithWords words0 words1 (tup # combo) =
     bindE (index words0 (fst tup)) (\<lambda>word0.
     bindE (index words1 (fst (snd tup))) (\<lambda>word1.
     bindE (pairsWithWords words0 words1 combo) (\<lambda>rest.
     Inr ((fst tup, fst (snd tup), word0, word1) # rest))))"

definition getPairIndicesAndWords ::
  "('a env_scheme) \<Rightarrow> pystr \<Rightarrow> pystr \<Rightarrow> error + (nat \<times> nat \<times> pystr \<times> pystr) list" where
  "getPairIndicesAndWords env name0 name1 =
     bindE (findWhichWordsMatchAndHowWell env name0 name1) (\<lambda>combo.
     pairsWithWords (split name0) (split name1) combo)"

text \<open>The class \<^verbatim>\<open>NameEditor\<close>: the two lists of words, updated by index.\<close>

record nameEditor =
  neWords0 :: "pystr list"
  neWords1 :: "pystr list"

definition NameEditor :: "pystr \<Rightarrow> pystr \<Rightarrow> nameEditor" where
  "NameEditor name0 name1 = \<lparr> neWords0 = split name0, neWords1 = split name1 \<rparr>"

definition updateName0 :: "nameEditor \<Rightarrow> nat \<Rightarrow> pystr \<Rightarrow> error + nameEditor" where
  "updateName0 ne i updatedWord =
     bindE (setIndex (neWords0 ne) i updatedWord) (\<lambda>ws. Inr (ne\<lparr>neWords0 := ws\<rparr>))"

definition updateName1 :: "nameEditor \<Rightarrow> nat \<Rightarrow> pystr \<Rightarrow> error + nameEditor" where
  "updateName1 ne i updatedWord =
     bindE (setIndex (neWords1 ne) i updatedWord) (\<lambda>ws. Inr (ne\<lparr>neWords1 := ws\<rparr>))"

definition getModifiedNames :: "nameEditor \<Rightarrow> pystr \<times> pystr" where
  "getModifiedNames ne = (join (neWords0 ne), join (neWords1 ne))"

section \<open>The spelling matcher\<close>

text \<open>
  \<^verbatim>\<open>reduceToSimpleConsonants\<close>: every one of \<^verbatim>\<open>a e i o u y\<close> becomes \<^verbatim>\<open>*\<close>, then
  \<^verbatim>\<open>replace("**", "*")\<close>, then \<^verbatim>\<open>re.sub(r'(.)\1+', r'\1', ...)\<close>, which shortens every run of
  one repeated character (not the newline, which \<^verbatim>\<open>.\<close> does not match) to that character.
\<close>

definition isVowelLetter :: "nat \<Rightarrow> bool" where
  "isVowelLetter c \<longleftrightarrow> c = 97 \<or> c = 101 \<or> c = 105 \<or> c = 111 \<or> c = 117 \<or> c = 121"

fun collapseRuns :: "pystr \<Rightarrow> pystr" where
  "collapseRuns (c # d # cs) =
     (if c = d \<and> c \<noteq> 10 then collapseRuns (d # cs) else c # collapseRuns (d # cs))"
| "collapseRuns cs = cs"

definition reduceToSimpleConsonants :: "pystr \<Rightarrow> pystr" where
  "reduceToSimpleConsonants string =
     collapseRuns (replace [42, 42] [42] (map (\<lambda>c. if isVowelLetter c then 42 else c) string))"

text \<open>One pass of the loop of \<^verbatim>\<open>_consonantComparison\<close>: is the pair counted?\<close>

definition consonantPairMatches :: "('a env_scheme) \<Rightarrow> pystr \<Rightarrow> pystr \<Rightarrow> int \<Rightarrow> bool" where
  "consonantPairMatches env word0 word1 originalScoreForWords =
     (let consonantsName0 = reduceToSimpleConsonants word0;
          consonantsName1 = reduceToSimpleConsonants word1;
          consonantsRatio = ratio env consonantsName0 consonantsName1
      in if originalScoreForWords \<le> 30 then False
         else if length word0 \<noteq> 1 \<and> length word1 \<noteq> 1 \<and>
                 min (count_list consonantsName0 42) (count_list consonantsName1 42) < 2
           then False
         else if (consonantsRatio \<le> 80 \<or> originalScoreForWords \<le> 60) \<and> consonantsRatio \<noteq> 100
           then False
         else True)"

fun consonantMatches ::
  "('a env_scheme) \<Rightarrow> pystr \<Rightarrow> pystr \<Rightarrow> triple list \<Rightarrow> nat \<Rightarrow> error + nat" where
  "consonantMatches env name0 name1 [] numWordConsonantMatches = Inr numWordConsonantMatches"
| "consonantMatches env name0 name1 (tup # wordCombo) numWordConsonantMatches =
     bindE (index (split name0) (fst tup)) (\<lambda>word0.
     bindE (index (split name1) (fst (snd tup))) (\<lambda>word1.
     consonantMatches env name0 name1 wordCombo
       (if consonantPairMatches env word0 word1 (snd (snd tup))
        then numWordConsonantMatches + 1 else numWordConsonantMatches)))"

definition consonantComparison :: "('a env_scheme) \<Rightarrow> pystr \<Rightarrow> pystr \<Rightarrow> error + bool" where
  "consonantComparison env name0 name1 =
     bindE (findWhichWordsMatchAndHowWell env name0 name1) (\<lambda>wordCombo.
     let minRequiredMatches = length wordCombo
     in bindE (consonantMatches env name0 name1 wordCombo 0) (\<lambda>numWordConsonantMatches.
        Inr (minRequiredMatches < numWordConsonantMatches \<or> 3 \<le> numWordConsonantMatches)))"

definition spellingComparison ::
  "('a env_scheme) \<Rightarrow> pystr \<Rightarrow> pystr \<Rightarrow> error + (bool \<times> triple list)" where
  "spellingComparison env name0 name1 =
     bindE (findWhichWordsMatchAndHowWell env name0 name1) (\<lambda>wordCombo.
     let count = length (filter (\<lambda>tup. 80 < snd (snd tup)) wordCombo);
         minLength = min (length (split name0)) (length (split name1))
     in if 3 \<le> count \<or> count = minLength then Inr (True, wordCombo)
        else bindE (consonantComparison env name0 name1) (\<lambda>consonantMatch.
             if consonantMatch then Inr (True, wordCombo) else Inr (False, wordCombo)))"

section \<open>The worth-continuing gate\<close>

text \<open>
  \<^verbatim>\<open>_isWorthContinuing\<close>. The source indexes the names themselves, \<^verbatim>\<open>name0[int(match[0])]\<close>,
  so \<open>word0\<close> and \<open>word1\<close> are strings of one character.
\<close>

fun oneLetterMatchFails :: "pystr \<Rightarrow> pystr \<Rightarrow> triple list \<Rightarrow> nat \<Rightarrow> error + nat" where
  "oneLetterMatchFails name0 name1 [] oneLetterMatchFailCount = Inr oneLetterMatchFailCount"
| "oneLetterMatchFails name0 name1 (match # wordCombo) oneLetterMatchFailCount =
     bindE (index name0 (fst match)) (\<lambda>c0.
     bindE (index name1 (fst (snd match))) (\<lambda>c1.
     let word0 = [c0]; word1 = [c1]; score = snd (snd match)
     in oneLetterMatchFails name0 name1 wordCombo
          (if score = 0 \<and> (length word0 = 1 \<or> length word1 = 1)
           then oneLetterMatchFailCount + 1 else oneLetterMatchFailCount)))"

definition isWorthContinuing :: "('a env_scheme) \<Rightarrow> pystr \<Rightarrow> pystr \<Rightarrow> error + bool" where
  "isWorthContinuing env name0 name1 =
     bindE (findWhichWordsMatchAndHowWell env name0 name1) (\<lambda>wordCombo.
     bindE (oneLetterMatchFails name0 name1 wordCombo 0) (\<lambda>oneLetterMatchFailCount.
     if 1 \<le> oneLetterMatchFailCount \<and> length wordCombo \<le> 3 then Inr False else Inr True))"

section \<open>The adjacent-swap repair\<close>

text \<open>
  The body of the loop of \<^verbatim>\<open>_fixSwappedChars\<close> for one pair: is the word of the first name
  overwritten? The last test is the source's: both of its disjuncts compare
  \<^verbatim>\<open>word0[posI]\<close> with \<^verbatim>\<open>word1[posJ]\<close>.
\<close>

definition swapFixApplies :: "('a env_scheme) \<Rightarrow> pystr \<Rightarrow> pystr \<Rightarrow> bool" where
  "swapFixApplies env word0 word1 =
     (if length word0 \<noteq> 5 then False
      else if length word0 \<noteq> length word1 then False
      else if ratio env word1 word0 \<noteq> 80 then False
      else let diffPositions = filter (\<lambda>i. word0 ! i \<noteq> word1 ! i) [0..<length word0]
           in if length diffPositions \<noteq> 2 then False
              else let posI = diffPositions ! 0; posJ = diffPositions ! 1
                   in if \<bar>int posI - int posJ\<bar> \<noteq> 1 then False
                      else if word0 ! posI \<noteq> word1 ! posJ \<or> word0 ! posI \<noteq> word1 ! posJ
                        then False
                      else True)"

fun fixSwappedLoop ::
  "('a env_scheme) \<Rightarrow> (nat \<times> nat \<times> pystr \<times> pystr) list \<Rightarrow> nameEditor \<Rightarrow> error + nameEditor" where
  "fixSwappedLoop env [] ne = Inr ne"
| "fixSwappedLoop env ((index0, _, word0, word1) # pairs) ne =
     (if swapFixApplies env word0 word1
      then bindE (updateName0 ne index0 word1) (\<lambda>ne'. fixSwappedLoop env pairs ne')
      else fixSwappedLoop env pairs ne)"

definition fixSwappedChars ::
  "('a env_scheme) \<Rightarrow> pystr \<Rightarrow> pystr \<Rightarrow> error + (pystr \<times> pystr)" where
  "fixSwappedChars env name0 name1 =
     (let ne = NameEditor name0 name1
      in bindE (getPairIndicesAndWords env name0 name1) (\<lambda>pairs.
         bindE (fixSwappedLoop env pairs ne) (\<lambda>ne'.
         Inr (getModifiedNames ne'))))"

section \<open>The rule engine\<close>

text \<open>
  \<^verbatim>\<open>re.search(f"{bottomBread}({meatOption1}|{meatOption2}){topBread}", word)\<close>, with the four
  strings read as literal text (letters, IPA symbols and the sentinel \<^verbatim>\<open>-\<close>, none of which
  the regular expression syntax treats specially): the leftmost position at which one of
  the two sandwiches starts, the first meat tried first. The result is the span of the
  match.
\<close>

fun searchSandwich ::
  "pystr \<Rightarrow> pystr \<Rightarrow> pystr \<Rightarrow> pystr \<Rightarrow> nat \<Rightarrow> pystr \<Rightarrow> (nat \<times> nat) option" where
  "searchSandwich bottomBread meat1 meat2 topBread pos [] =
     (if prefix (bottomBread @ meat1 @ topBread) [] \<or> prefix (bottomBread @ meat2 @ topBread) []
      then Some (pos, pos) else None)"
| "searchSandwich bottomBread meat1 meat2 topBread pos (c # cs) =
     (if prefix (bottomBread @ meat1 @ topBread) (c # cs)
      then Some (pos, pos + length (bottomBread @ meat1 @ topBread))
      else if prefix (bottomBread @ meat2 @ topBread) (c # cs)
      then Some (pos, pos + length (bottomBread @ meat2 @ topBread))
      else searchSandwich bottomBread meat1 meat2 topBread (Suc pos) cs)"

text \<open>
  \<^verbatim>\<open>overwriteWithSubstring\<close>: the slice assignment \<^verbatim>\<open>stringList[startIndex:endIndex] =
  replacement\<close> on the list of characters (an end before the start counts as the start).
\<close>

definition overwriteWithSubstring :: "pystr \<Rightarrow> pystr \<Rightarrow> nat \<Rightarrow> nat \<Rightarrow> pystr" where
  "overwriteWithSubstring string replacement startIndex endIndex =
     take startIndex string @ replacement @ drop (max startIndex endIndex) string"

text \<open>
  The body of the innermost loop of \<^verbatim>\<open>_replaceSubstringSandwichMeatIfMatchingBread\<close>, for
  one bottom bread and one top bread, on the current pair of bracketed words.
\<close>

definition sandwichStep ::
  "pystr \<Rightarrow> pystr \<Rightarrow> pystr \<Rightarrow> pystr \<Rightarrow> pystr \<times> pystr \<Rightarrow> pystr \<times> pystr" where
  "sandwichStep meatOption1 meatOption2 bottomBread topBread ww =
     (let word0 = fst ww; word1 = snd ww
      in if \<not> contains topBread word0 \<or> \<not> contains topBread word1 then ww
         else case (searchSandwich bottomBread meatOption1 meatOption2 topBread 0 word0,
                    searchSandwich bottomBread meatOption1 meatOption2 topBread 0 word1) of
                (Some (spanA1, spanB1), Some (spanA2, spanB2)) \<Rightarrow>
                  if take (spanB1 - spanA1) (drop spanA1 word0) =
                     take (spanB2 - spanA2) (drop spanA2 word1) then ww
                  else if \<not> (\<bar>int spanA1 - int spanA2\<bar> \<le> 2 \<and> \<bar>int spanB1 - int spanB2\<bar> \<le> 2)
                    then ww
                  else (overwriteWithSubstring word0 meatOption2
                          (spanA1 + length bottomBread) (spanB1 - length topBread),
                        overwriteWithSubstring word1 meatOption2
                          (spanA2 + length bottomBread) (spanB2 - length topBread))
              | _ \<Rightarrow> ww)"

text \<open>The two loops over the breads, for one pair of bracketed words.\<close>

definition sandwichBreads ::
  "pystr \<Rightarrow> pystr \<Rightarrow> pystr list \<Rightarrow> pystr list \<Rightarrow> pystr \<times> pystr \<Rightarrow> pystr \<times> pystr" where
  "sandwichBreads meatOption1 meatOption2 bottomBreadOptions topBreadOptions ww =
     fold (\<lambda>bottomBread ww.
             if \<not> contains bottomBread (fst ww) \<or> \<not> contains bottomBread (snd ww) then ww
             else fold (sandwichStep meatOption1 meatOption2 bottomBread) topBreadOptions ww)
          bottomBreadOptions ww"

fun sandwichLoop ::
  "pystr \<Rightarrow> pystr \<Rightarrow> pystr list \<Rightarrow> pystr list \<Rightarrow> int \<Rightarrow>
   (nat \<times> nat \<times> pystr \<times> pystr) list \<Rightarrow> nameEditor \<Rightarrow> error + nameEditor" where
  "sandwichLoop meatOption1 meatOption2 bottomBreadOptions topBreadOptions minRequiredLetters [] ne = Inr ne"
| "sandwichLoop meatOption1 meatOption2 bottomBreadOptions topBreadOptions minRequiredLetters
     ((index0, index1, word0, word1) # pairs) ne =
     (if int (length word0) < minRequiredLetters \<or> int (length word1) < minRequiredLetters
      then sandwichLoop meatOption1 meatOption2 bottomBreadOptions topBreadOptions minRequiredLetters pairs ne
      else let ww = sandwichBreads meatOption1 meatOption2 bottomBreadOptions topBreadOptions
                      ([45] @ word0 @ [45], [45] @ word1 @ [45])
           in bindE (updateName0 ne index0 (replace [45] [] (fst ww))) (\<lambda>ne.
              bindE (updateName1 ne index1 (replace [45] [] (snd ww))) (\<lambda>ne.
              sandwichLoop meatOption1 meatOption2 bottomBreadOptions topBreadOptions minRequiredLetters pairs ne)))"

definition replaceSubstringSandwichMeatIfMatchingBread ::
  "('a env_scheme) \<Rightarrow> pystr \<Rightarrow> pystr \<Rightarrow> pystr \<Rightarrow> pystr \<Rightarrow> pystr list \<Rightarrow> pystr list \<Rightarrow> int \<Rightarrow>
   error + (pystr \<times> pystr)" where
  "replaceSubstringSandwichMeatIfMatchingBread env name0 name1 meatOption1 meatOption2
     bottomBreadOptions topBreadOptions minRequiredLetters =
     (if (\<not> contains meatOption1 name0 \<and> \<not> contains meatOption2 name0) \<or>
         (\<not> contains meatOption1 name1 \<and> \<not> contains meatOption2 name1)
      then Inr (name0, name1)
      else let ne = NameEditor name0 name1
           in bindE (getPairIndicesAndWords env name0 name1) (\<lambda>pairs.
              bindE (sandwichLoop meatOption1 meatOption2 bottomBreadOptions topBreadOptions minRequiredLetters
                       pairs ne) (\<lambda>ne.
              Inr (getModifiedNames ne))))"

text \<open>The rule engine with the fields of one rule, as the callers apply it.\<close>

definition applyRule ::
  "('a env_scheme) \<Rightarrow> rule \<Rightarrow> pystr \<times> pystr \<Rightarrow> error + (pystr \<times> pystr)" where
  "applyRule env r names =
     replaceSubstringSandwichMeatIfMatchingBread env (fst names) (snd names)
       (meatA r) (meatB r) (bottomBreads r) (topBreads r) (minLen r)"

fun applyRules ::
  "('a env_scheme) \<Rightarrow> rule list \<Rightarrow> pystr \<times> pystr \<Rightarrow> error + (pystr \<times> pystr)" where
  "applyRules env [] names = Inr names"
| "applyRules env (r # rules) names =
     bindE (applyRule env r names) (\<lambda>names'. applyRules env rules names')"

section \<open>Regular expressions and more string operations\<close>

text \<open>
  The class \<^verbatim>\<open>\w\<close> of the regular expressions, on ASCII: letters, digits and the
  underscore. The names are ASCII when the first \<^verbatim>\<open>\b\<close> is used, after \<^verbatim>\<open>unidecode\<close>.
\<close>

definition isword :: "nat \<Rightarrow> bool" where
  "isword c \<longleftrightarrow> (48 \<le> c \<and> c \<le> 57) \<or> (65 \<le> c \<and> c \<le> 90) \<or> c = 95 \<or> (97 \<le> c \<and> c \<le> 122)"

text \<open>
  \<^verbatim>\<open>\b\<close> between the character before a position (\<open>None\<close> at the start of the string)
  and the rest of the string from that position on.
\<close>

definition boundary :: "nat option \<Rightarrow> pystr \<Rightarrow> bool" where
  "boundary prev rest =
     ((case prev of None \<Rightarrow> False | Some c \<Rightarrow> isword c) \<noteq>
      (case rest of [] \<Rightarrow> False | c # _ \<Rightarrow> isword c))"

text \<open>
  \<^verbatim>\<open>re.sub(pattern, repl, s)\<close> for a pattern that matches no empty string. \<open>m prev rest\<close>
  is the length of the match of the pattern that starts where \<open>rest\<close> starts, if there is
  one, \<open>prev\<close> being the character before. The string is scanned from the left; after a
  match the scan goes on behind it. \<open>skip\<close> counts the characters of a match still to be
  passed over.
\<close>

fun resub ::
  "(nat option \<Rightarrow> pystr \<Rightarrow> nat option) \<Rightarrow> pystr \<Rightarrow> nat option \<Rightarrow> nat \<Rightarrow> pystr \<Rightarrow> pystr" where
  "resub m repl prev skip [] = []"
| "resub m repl prev (Suc skip) (c # cs) = resub m repl (Some c) skip cs"
| "resub m repl prev 0 (c # cs) =
     (case m prev (c # cs) of
        Some (Suc n) \<Rightarrow> repl @ resub m repl (Some c) n cs
      | _ \<Rightarrow> c # resub m repl (Some c) 0 cs)"

definition re_sub :: "(nat option \<Rightarrow> pystr \<Rightarrow> nat option) \<Rightarrow> pystr \<Rightarrow> pystr \<Rightarrow> pystr" where
  "re_sub m repl s = resub m repl None 0 s"

text \<open>The patterns: \<^verbatim>\<open>\bword\b\<close>, \<^verbatim>\<open>\b(w1|w2|...)\b\<close>, \<^verbatim>\<open>\bword\<close> and \<^verbatim>\<open>word\b\<close>, for literal words.\<close>

definition wholeWord :: "pystr \<Rightarrow> nat option \<Rightarrow> pystr \<Rightarrow> nat option" where
  "wholeWord w prev rest =
     (if prefix w rest \<and> boundary prev rest \<and>
         boundary (if w = [] then prev else Some (last w)) (drop (length w) rest)
      then Some (length w) else None)"

fun wholeWords :: "pystr list \<Rightarrow> nat option \<Rightarrow> pystr \<Rightarrow> nat option" where
  "wholeWords [] prev rest = None"
| "wholeWords (w # ws) prev rest =
     (case wholeWord w prev rest of Some n \<Rightarrow> Some n | None \<Rightarrow> wholeWords ws prev rest)"

definition wordStart :: "pystr \<Rightarrow> nat option \<Rightarrow> pystr \<Rightarrow> nat option" where
  "wordStart w prev rest = (if boundary prev rest \<and> prefix w rest then Some (length w) else None)"

definition wordEnd :: "pystr \<Rightarrow> nat option \<Rightarrow> pystr \<Rightarrow> nat option" where
  "wordEnd w prev rest =
     (if prefix w rest \<and> boundary (if w = [] then prev else Some (last w)) (drop (length w) rest)
      then Some (length w) else None)"

text \<open>\<^verbatim>\<open>[1-9][a-z]2,6\<close>: a digit, a lower-case letter and the three characters \<^verbatim>\<open>2,6\<close>.\<close>

definition digitLetter26 :: "nat option \<Rightarrow> pystr \<Rightarrow> nat option" where
  "digitLetter26 prev rest =
     (case rest of
        d # l # others \<Rightarrow>
          if 49 \<le> d \<and> d \<le> 57 \<and> 97 \<le> l \<and> l \<le> 122 \<and> prefix [50, 44, 54] others
          then Some 5 else None
      | _ \<Rightarrow> None)"

text \<open>\<^verbatim>\<open>re.sub(r'[^\S ]', ' ', name)\<close>: every whitespace character but the space becomes a space.\<close>

definition spaceOutWhitespace :: "pystr \<Rightarrow> pystr" where
  "spaceOutWhitespace s = map (\<lambda>c. if isspace c \<and> c \<noteq> 32 then 32 else c) s"

text \<open>\<^verbatim>\<open>re.sub(r" +", " ", name)\<close>.\<close>

fun collapseSpaces :: "pystr \<Rightarrow> pystr" where
  "collapseSpaces (c # d # cs) =
     (if c = 32 \<and> d = 32 then collapseSpaces (d # cs) else c # collapseSpaces (d # cs))"
| "collapseSpaces cs = cs"

text \<open>\<^verbatim>\<open>re.sub(r'\s+', ' ', name)\<close>; \<open>inRun\<close> says that the character before was whitespace.\<close>

fun collapseWhitespaceFrom :: "bool \<Rightarrow> pystr \<Rightarrow> pystr" where
  "collapseWhitespaceFrom inRun [] = []"
| "collapseWhitespaceFrom inRun (c # cs) =
     (if isspace c then (if inRun then collapseWhitespaceFrom True cs
                         else 32 # collapseWhitespaceFrom True cs)
      else c # collapseWhitespaceFrom False cs)"

definition collapseWhitespace :: "pystr \<Rightarrow> pystr" where
  "collapseWhitespace s = collapseWhitespaceFrom False s"

text \<open>\<^verbatim>\<open>name.strip()\<close> and \<^verbatim>\<open>name.rstrip()\<close>.\<close>

definition rstrip :: "pystr \<Rightarrow> pystr" where
  "rstrip s = rev (dropWhile isspace (rev s))"

definition strip :: "pystr \<Rightarrow> pystr" where
  "strip s = rstrip (dropWhile isspace s)"

text \<open>\<^verbatim>\<open>name.lower()\<close>, on ASCII.\<close>

definition lower :: "pystr \<Rightarrow> pystr" where
  "lower s = map (\<lambda>c. if 65 \<le> c \<and> c \<le> 90 then c + 32 else c) s"

text \<open>\<^verbatim>\<open>re.sub("' +", "'", name)\<close>; \<open>afterApostrophe\<close>: only spaces since the last apostrophe.\<close>

fun dropSpacesAfterApostrophe :: "bool \<Rightarrow> pystr \<Rightarrow> pystr" where
  "dropSpacesAfterApostrophe afterApostrophe [] = []"
| "dropSpacesAfterApostrophe afterApostrophe (c # cs) =
     (if c = 32 \<and> afterApostrophe then dropSpacesAfterApostrophe True cs
      else c # dropSpacesAfterApostrophe (c = 39) cs)"

section \<open>The single-name cleaner\<close>

text \<open>
  \<^verbatim>\<open>_cleanNameByItself\<close>, statement by statement. The argument is a string (the test
  \<^verbatim>\<open>isinstance(name, str)\<close> holds by the type). \<^verbatim>\<open>.replace(r"\bjunior\b", "")\<close> and its likes are
  calls of \<^verbatim>\<open>str.replace\<close> with a raw string: they replace the literal text that begins and
  ends with a backslash and a \<^verbatim>\<open>b\<close>.
\<close>

definition rawWord :: "string \<Rightarrow> pystr" where
  "rawWord w = [92, 98] @ str w @ [92, 98]"

definition removeTitles :: "pystr \<Rightarrow> pystr" where
  "removeTitles name =
     (let name = replace (rawWord ''junior'') [] (re_sub (wholeWord (str ''jr'')) [] name);
          name = replace (rawWord ''senior'') [] (re_sub (wholeWord (str ''sr'')) [] name);
          name = replace (rawWord ''professor'') [] (re_sub (wholeWord (str ''prof'')) [] name);
          name = replace (rawWord ''mister'') [] (re_sub (wholeWord (str ''mr'')) [] name);
          name = replace (rawWord ''missus'') [] (re_sub (wholeWord (str ''mrs'')) [] name);
          name = replace (rawWord ''miss'') [] (re_sub (wholeWord (str ''ms'')) [] name);
          name = replace (rawWord ''doctor'') [] (re_sub (wholeWord (str ''dr'')) [] name);
          name = re_sub (wholeWord (str ''student'')) [] name;
          name = re_sub (wholeWord (str ''rev'')) [] name;
          name = replace (str ''reverend'') [] name
      in name)"

definition removeFamilyRelations :: "pystr \<Rightarrow> pystr" where
  "removeFamilyRelations name =
     (let name = re_sub (wholeWord (str ''sister'')) [] name;
          name = re_sub (wholeWord (str ''brother'')) [] name;
          name = re_sub (wholeWord (str ''mother'')) [] name;
          name = re_sub (wholeWord (str ''father'')) [] name;
          name = replace (str '' in law'') (str '' '') name
      in name)"

definition removeRomanNumerals :: "pystr \<Rightarrow> pystr" where
  "removeRomanNumerals name =
     join (map (re_sub (wholeWords [str ''ii'', str ''iii'', str ''iv'']) []) (split name))"

definition fuseDutchPrefixes :: "pystr \<Rightarrow> pystr" where
  "fuseDutchPrefixes name =
     (let name = re_sub (wordStart (str ''van de'')) (str ''vande'') name;
          name = re_sub (wordStart (str ''van den'')) (str ''vanden'') name;
          name = re_sub (wordStart (str ''van der'')) (str ''vander'') name
      in name)"

definition cleanNameByItself :: "('a env_scheme) \<Rightarrow> pystr \<Rightarrow> pystr" where
  "cleanNameByItself env name =
     (if name = [] then str ''_''
      else let name = spaceOutWhitespace name;
               name = collapseSpaces name;
               name = strip name;
               name = unidecode env name;
               name = lower name
           in if name = [] then str ''_''
              else let name = filter (\<lambda>c. c \<notin> set (str ''.,?;\"*()'')) name;
                       name = dropSpacesAfterApostrophe False name;
                       name = removeTitles name;
                       name = removeFamilyRelations name;
                       name = replace (str ''head of household'') [] name;
                       name = collapseSpaces name;
                       name = replace (str '' the '') [] (re_sub digitLetter26 [] name);
                       name = removeRomanNumerals name;
                       name = collapseSpaces name;
                       name = strip name;
                       name = replace (str ''no suffix'') [] name;
                       name = fuseDutchPrefixes name;
                       name = collapseSpaces name;
                       name = strip name
                   in name)"

section \<open>The pair-aware cleaner\<close>

text \<open>A loop whose body may raise: the exception ends the loop.\<close>

fun foldE :: "('a \<Rightarrow> 's \<Rightarrow> error + 's) \<Rightarrow> 'a list \<Rightarrow> 's \<Rightarrow> error + 's" where
  "foldE f [] s = Inr s"
| "foldE f (x # xs) s = bindE (f x s) (foldE f xs)"

text \<open>\<^verbatim>\<open>s.replace(old, new, 1)\<close>.\<close>

fun replaceFirst :: "pystr \<Rightarrow> pystr \<Rightarrow> pystr \<Rightarrow> pystr" where
  "replaceFirst old new [] = (if old = [] then new else [])"
| "replaceFirst old new (c # cs) =
     (if prefix old (c # cs) then new @ drop (length old) (c # cs)
      else c # replaceFirst old new cs)"

text \<open>\<^verbatim>\<open>s.index(sub)\<close>: the first position of \<open>sub\<close>, ValueError when there is none.\<close>

fun findFrom :: "pystr \<Rightarrow> nat \<Rightarrow> pystr \<Rightarrow> nat option" where
  "findFrom sub pos [] = (if sub = [] then Some pos else None)"
| "findFrom sub pos (c # cs) =
     (if prefix sub (c # cs) then Some pos else findFrom sub (Suc pos) cs)"

definition strIndex :: "pystr \<Rightarrow> pystr \<Rightarrow> error + nat" where
  "strIndex s sub = (case findFrom sub 0 s of None \<Rightarrow> Inl ValueError | Some i \<Rightarrow> Inr i)"

text \<open>\<^verbatim>\<open>name.split()[-1]\<close>: IndexError for a name without words.\<close>

definition lastWord :: "pystr \<Rightarrow> error + pystr" where
  "lastWord name = (case split name of [] \<Rightarrow> Inl IndexError | w # ws \<Rightarrow> Inr (last (w # ws)))"

text \<open>
  \<^verbatim>\<open>sum(tup[2] for tup in wordCombo) / len(wordCombo)\<close>: the quotient of two integers as a
  float, ZeroDivisionError for an empty alignment.
\<close>

definition averageScore :: "('a env_scheme) \<Rightarrow> triple list \<Rightarrow> error + real" where
  "averageScore env wordCombo =
     (if wordCombo = [] then Inl ZeroDivisionError
      else Inr (fround env (real_of_int (comboSum wordCombo) / real (length wordCombo))))"

definition calculateEditImprovement ::
  "('a env_scheme) \<Rightarrow> pystr \<Rightarrow> pystr \<Rightarrow> pystr \<Rightarrow> pystr \<Rightarrow>
   error + (real \<times> triple list \<times> triple list)" where
  "calculateEditImprovement env name0 name1 name0Edited name1Edited =
     bindE (findWhichWordsMatchAndHowWell env name0 name1) (\<lambda>ogWordCombo.
     bindE (findWhichWordsMatchAndHowWell env name0Edited name1Edited) (\<lambda>editedWordCombo.
     bindE (averageScore env ogWordCombo) (\<lambda>ogAverageScore.
     bindE (averageScore env editedWordCombo) (\<lambda>editedAverageScore.
     Inr (fround env (editedAverageScore - ogAverageScore), ogWordCombo, editedWordCombo)))))"

text \<open>
  \<^verbatim>\<open>_combineSplitWords\<close>. The loop over the aligned pairs returns from the function at the
  first pair whose compound is accepted, and at the first pair without a neighbour of
  more than one letter.
\<close>

fun combineSplitLoop ::
  "('a env_scheme) \<Rightarrow> pystr \<Rightarrow> pystr \<Rightarrow> (nat \<times> nat \<times> pystr \<times> pystr) list \<Rightarrow>
   error + (bool \<times> pystr \<times> pystr)" where
  "combineSplitLoop env name0 name1 [] = Inr (False, name0, name1)"
| "combineSplitLoop env name0 name1 ((index0, _, word0, word1) # pairs) =
     (if partial_ratio env word0 word1 < 75 then combineSplitLoop env name0 name1 pairs
      else if length word0 = 1 \<or> length word1 = 1 then combineSplitLoop env name0 name1 pairs
      else
        bindE (if 1 \<le> index0 then index (split name0) (index0 - 1) else Inr []) (\<lambda>leftNeighbor.
        bindE (if index0 + 1 < length (split name0) then index (split name0) (index0 + 1)
               else Inr []) (\<lambda>rightNeighbor.
        let leftNeighbor = (if 1 < length leftNeighbor then leftNeighbor else []);
            rightNeighbor = (if 1 < length rightNeighbor then rightNeighbor else [])
        in if leftNeighbor = [] \<and> rightNeighbor = [] then Inr (False, name0, name1)
           else
             let leftWasChosen =
                   (if leftNeighbor = [] then False
                    else if rightNeighbor = [] then True
                    else partial_ratio env rightNeighbor word1 < partial_ratio env leftNeighbor word1);
                 chosenNeighbor = (if leftWasChosen then leftNeighbor else rightNeighbor);
                 compound = (if leftWasChosen then leftNeighbor @ word0 else word0 @ rightNeighbor);
                 indexN = (if leftWasChosen then index0 - 1 else index0 + 1)
             in if partial_ratio env chosenNeighbor word1 < 65
                  then combineSplitLoop env name0 name1 pairs
                else if ratio env compound word1 < ratio env word0 word1 + 20
                  then combineSplitLoop env name0 name1 pairs
                else if \<bar>int (length word1) - int (length word0)\<bar> <
                        \<bar>int (length word1) - int (length compound)\<bar>
                  then combineSplitLoop env name0 name1 pairs
                else
                  bindE (updateName0 (NameEditor name0 name1) index0 compound) (\<lambda>ne.
                  bindE (updateName0 ne indexN []) (\<lambda>ne.
                  let name0Edited = fst (getModifiedNames ne)
                  in bindE (calculateEditImprovement env name0 name1 name0Edited name1)
                       (\<lambda>(improvement, _, _).
                  if - 1 < improvement then Inr (True, name0Edited, name1)
                  else combineSplitLoop env name0 name1 pairs))))))"

definition combineSplitWords ::
  "('a env_scheme) \<Rightarrow> pystr \<Rightarrow> pystr \<Rightarrow> error + (bool \<times> pystr \<times> pystr)" where
  "combineSplitWords env name0 name1 =
     (if length (split name0) < 3 then Inr (False, name0, name1)
      else bindE (spellingComparison env name0 name1) (\<lambda>(match, _).
           if match then Inr (False, name0, name1)
           else bindE (getPairIndicesAndWords env name0 name1) (\<lambda>pairs.
                combineSplitLoop env name0 name1 pairs)))"

definition dealWithDashes ::
  "('a env_scheme) \<Rightarrow> pystr \<Rightarrow> pystr \<Rightarrow> error + (pystr \<times> pystr)" where
  "dealWithDashes env name0 name1 =
     (if \<not> contains [45] name0 \<and> \<not> contains [45] name1 then Inr (name0, name1)
      else if contains [45] name0 \<and> contains [45] name1 then Inr (name0, name1)
      else bindE (combineSplitWords env (replace [45] [32] name0) (replace [45] [32] name1))
             (\<lambda>(_, name0Edited, name1Edited).
           bindE (calculateEditImprovement env name0 name1 name0Edited name1Edited)
             (\<lambda>(diff, _, _).
           if diff \<le> 0 then Inr (name0, name1) else Inr (name0Edited, name1Edited))))"

definition fixRelatedPrefixes :: "pystr \<Rightarrow> pystr \<Rightarrow> pystr \<Rightarrow> pystr \<Rightarrow> pystr \<times> pystr" where
  "fixRelatedPrefixes name0 name1 prefixA prefixB =
     (if \<not> contains (32 # prefixA) name0 \<and> \<not> contains (32 # prefixA) name1 then (name0, name1)
      else if \<not> contains (32 # prefixB) name0 \<and> \<not> contains (32 # prefixB) name1 then (name0, name1)
      else if contains (32 # prefixA) name0 \<and> contains (32 # prefixA) name1 then (name0, name1)
      else if contains (32 # prefixB) name0 \<and> contains (32 # prefixB) name1 then (name0, name1)
      else if contains (32 # prefixB) name0
        then (replace (32 # prefixB) (32 # prefixA) name0, name1)
      else (name0, replace (32 # prefixB) (32 # prefixA) name1))"

text \<open>The body of the inner loop of \<^verbatim>\<open>_fixMcMac\<close>, for one prefix and one aligned pair.\<close>

definition fixMcMacPair ::
  "('a env_scheme) \<Rightarrow> pystr \<Rightarrow> nat \<times> nat \<times> pystr \<times> pystr \<Rightarrow> nameEditor \<Rightarrow> error + nameEditor" where
  "fixMcMacPair env pfx pair ne =
     (case pair of (index0, index1, word0, word1) \<Rightarrow>
      if prefix pfx word0 \<and> prefix pfx word1 then Inr ne
      else if \<not> prefix pfx word0 \<and> \<not> prefix pfx word1 then Inr ne
      else if index0 < 1 \<or> index1 < 1 then Inr ne
      else if min (length word0) (length word1) < 3 then Inr ne
      else if 80 < ratio env word0 word1 then Inr ne
      else let updatedWord0 = (if prefix pfx word0 then replaceFirst pfx [] word0 else word0);
               updatedWord1 = (if prefix pfx word0 then word1 else replaceFirst pfx [] word1)
           in if ratio env updatedWord0 updatedWord1 < 75 then Inr ne
              else bindE (updateName0 ne index0 updatedWord0) (\<lambda>ne.
                   updateName1 ne index1 updatedWord1))"

definition fixMcMac :: "('a env_scheme) \<Rightarrow> pystr \<Rightarrow> pystr \<Rightarrow> error + (pystr \<times> pystr)" where
  "fixMcMac env name0 name1 =
     (if \<not> contains (str ''mc'') name0 \<and> \<not> contains (str ''mac'') name0 \<and>
         \<not> contains (str ''mc'') name1 \<and> \<not> contains (str ''mac'') name1
      then Inr (name0, name1)
      else bindE (combineSplitWords env name0 name1) (\<lambda>(_, name0, name1).
           bindE (foldE (\<lambda>pfx ne.
                    bindE (getPairIndicesAndWords env name0 name1) (\<lambda>pairs.
                    foldE (fixMcMacPair env pfx) pairs ne))
                  [str ''mc'', str ''mac''] (NameEditor name0 name1)) (\<lambda>ne.
           Inr (getModifiedNames ne))))"

definition oNames :: "pystr list" where
  "oNames = map str
     [''beirne'', ''berry'', ''boyle'', ''bryant'', ''brian'', ''brien'', ''bryan'', ''ceallaigh'',
      ''conner'', ''connor'', ''conor'', ''daniel'', ''day'', ''dean'', ''dea'', ''doherty'',
      ''donnell'', ''donnel'', ''donoghue'', ''donohue'', ''donovan'', ''dowd'', ''driscoll'',
      ''fallon'', ''farrell'', ''flaherty'', ''flanagan'', ''flynn'', ''gara'', ''gorman'',
      ''grady'', ''guinn'', ''guin'', ''hagan'', ''haire'', ''hair'', ''halloran'', ''hanlon'',
      ''hara'', ''hare'', ''harra'', ''harrow'', ''haver'', ''hearn'', ''hern'', ''herron'',
      ''higgins'', ''hora'', ''kane'', ''keefe'', ''keeffe'', ''kelley'', ''kelly'', ''laughlin'',
      ''leary'', ''loughlin'', ''mahoney'', ''mahony'', ''maley'', ''malley'', ''mara'', ''mary'',
      ''meara'', ''melia'', ''moore'', ''more'', ''muir'', ''murchu'', ''mure'', ''murphy'',
      ''neall'', ''neal'', ''neill'', ''neil'', ''ney'', ''niall'', ''quinn'', ''regan'',
      ''reilly'', ''riley'', ''riordan'', ''roark'', ''rorke'', ''rourke'', ''ryan'',
      ''shaughnessy'', ''shea'', ''shields'', ''sullivan'', ''toole'', ''tool'']"

text \<open>The two halves of \<^verbatim>\<open>_removeIrishO\<close>, for one of the two names.\<close>

definition removeIrishOFrom :: "('a env_scheme) \<Rightarrow> pystr \<Rightarrow> pystr \<Rightarrow> error + pystr" where
  "removeIrishOFrom env name surname =
     bindE (lastWord name) (\<lambda>lastname.
     if 75 < ratio env lastname surname
     then (if hd lastname = 111 then Inr (replace lastname surname name)
           else Inr (replace (str ''o '' @ lastname) surname name))
     else Inr name)"

definition removeIrishO ::
  "('a env_scheme) \<Rightarrow> pystr \<Rightarrow> pystr \<times> pystr \<Rightarrow> error + (pystr \<times> pystr)" where
  "removeIrishO env surname names =
     (case names of (name0, name1) \<Rightarrow>
      if \<not> contains (str '' o '') name0 \<and> \<not> contains (str '' o'') name0 \<and>
         \<not> contains (str '' o'') name1 \<and> \<not> contains (str '' o '') name1
      then Inr (name0, name1)
      else if \<not> contains surname name0 \<and> \<not> contains surname name1 then Inr (name0, name1)
      else bindE (removeIrishOFrom env name0 surname) (\<lambda>name0.
           bindE (removeIrishOFrom env name1 surname) (\<lambda>name1.
           Inr (name0, name1))))"

text \<open>
  \<^verbatim>\<open>re.search(r'\b{}\w*\b'.format(spacePrefix), name).group()\<close>: the text of the leftmost
  match of a word boundary, the space and the prefix, the word characters that follow
  and a word boundary; \<open>None\<close> when there is no match.
\<close>

definition prefixedWordAt :: "pystr \<Rightarrow> nat option \<Rightarrow> pystr \<Rightarrow> pystr option" where
  "prefixedWordAt spacePrefix prev rest =
     (if boundary prev rest \<and> prefix spacePrefix rest
      then let matched = spacePrefix @ takeWhile isword (drop (length spacePrefix) rest)
           in if boundary (if matched = [] then prev else Some (last matched))
                   (drop (length matched) rest)
              then Some matched else None
      else None)"

fun searchPrefixedWord :: "pystr \<Rightarrow> nat option \<Rightarrow> pystr \<Rightarrow> pystr option" where
  "searchPrefixedWord spacePrefix prev [] = prefixedWordAt spacePrefix prev []"
| "searchPrefixedWord spacePrefix prev (c # cs) =
     (case prefixedWordAt spacePrefix prev (c # cs) of
        Some matched \<Rightarrow> Some matched
      | None \<Rightarrow> searchPrefixedWord spacePrefix (Some c) cs)"

text \<open>\<^verbatim>\<open>match.group()\<close> raises AttributeError when \<^verbatim>\<open>re.search\<close> found nothing.\<close>

definition removeLongPrefixedWord :: "pystr \<Rightarrow> pystr \<Rightarrow> pystr \<Rightarrow> error + pystr" where
  "removeLongPrefixedWord pfx name nameEdited =
     (case searchPrefixedWord (32 # pfx) None name of
        None \<Rightarrow> Inl AttributeError
      | Some matchedWord \<Rightarrow>
          if length pfx + 4 < length matchedWord then Inr (replace (32 # pfx) [32] name)
          else Inr nameEdited)"

definition removePrefixPair ::
  "pystr \<Rightarrow> nat \<times> nat \<times> pystr \<times> pystr \<Rightarrow> nameEditor \<Rightarrow> error + nameEditor" where
  "removePrefixPair pfx pair ne =
     (case pair of (index0, index1, word0, word1) \<Rightarrow>
      if prefix pfx word0 \<and> drop (length pfx) word0 = word1 \<and> 2 < length word1
        then updateName0 ne index0 (drop (length pfx) word0)
      else if prefix pfx word1 \<and> drop (length pfx) word1 = word0 \<and> 2 < length word0
        then updateName1 ne index1 (drop (length pfx) word1)
      else Inr ne)"

definition removeUnnecessaryPrefixes ::
  "('a env_scheme) \<Rightarrow> pystr \<Rightarrow> pystr \<times> pystr \<Rightarrow> error + (pystr \<times> pystr)" where
  "removeUnnecessaryPrefixes env pfx names =
     (let name0 = collapseWhitespace (fst names);
          name1 = collapseWhitespace (snd names);
          spPrefixSp = 32 # pfx @ [32];
          spacePrefix = 32 # pfx
      in if \<not> contains spacePrefix name0 \<and> \<not> contains spacePrefix name1 then Inr (name0, name1)
         else
           let name0Edited =
                 (if contains spPrefixSp name0 \<and> contains spPrefixSp name1 then name0
                  else if contains spPrefixSp name0 \<and> contains spacePrefix name1
                    then replace spPrefixSp spacePrefix name0
                  else name0);
               name1Edited =
                 (if contains spPrefixSp name0 \<and> contains spPrefixSp name1 then name1
                  else if contains spPrefixSp name0 \<and> contains spacePrefix name1 then name1
                  else if contains spacePrefix name0 \<and> contains spPrefixSp name1
                    then replace spPrefixSp spacePrefix name1
                  else name1);
               name0Edited = collapseWhitespace (replace spPrefixSp [32] name0Edited);
               name1Edited = collapseWhitespace (replace spPrefixSp [32] name1Edited)
           in bindE (if name0 = name0Edited \<and> name1 = name1Edited
                     then (if contains spacePrefix name0 \<and> \<not> contains spacePrefix name1
                             then bindE (removeLongPrefixedWord pfx name0 name0Edited)
                                    (\<lambda>name0Edited. Inr (name0Edited, name1Edited))
                           else if contains spacePrefix name1 \<and> \<not> contains spacePrefix name0
                             then bindE (removeLongPrefixedWord pfx name1 name1Edited)
                                    (\<lambda>name1Edited. Inr (name0Edited, name1Edited))
                           else Inr (name0Edited, name1Edited))
                     else Inr (name0Edited, name1Edited)) (\<lambda>(name0Edited, name1Edited).
              bindE (calculateEditImprovement env name0 name1 name0Edited name1Edited)
                (\<lambda>(improvement, _, _).
              bindE (if 10 \<le> improvement then Inr True
                     else bindE (spellingComparison env name0Edited name1Edited) (\<lambda>(edited, _).
                          if edited
                          then bindE (spellingComparison env name0 name1) (\<lambda>(original, _).
                               Inr (\<not> original))
                          else Inr False)) (\<lambda>useEdited.
              if useEdited then Inr (name0Edited, name1Edited)
              else bindE (getPairIndicesAndWords env name0 name1) (\<lambda>pairs.
                   bindE (foldE (removePrefixPair pfx) pairs (NameEditor name0 name1)) (\<lambda>ne.
                   Inr (getModifiedNames ne)))))))"

text \<open>
  \<^verbatim>\<open>re.search(f' {prefix} .', name)\<close>: is there a space, the prefix and a space, followed by
  a character that is not a newline?
\<close>

fun searchPrefixAndLetter :: "pystr \<Rightarrow> pystr \<Rightarrow> bool" where
  "searchPrefixAndLetter spPrefixSp [] = False"
| "searchPrefixAndLetter spPrefixSp (c # cs) =
     ((prefix spPrefixSp (c # cs) \<and>
       (case drop (length spPrefixSp) (c # cs) of [] \<Rightarrow> False | d # _ \<Rightarrow> d \<noteq> 10)) \<or>
      searchPrefixAndLetter spPrefixSp cs)"

definition combinePrefixWithSurnameifInBoth ::
  "pystr \<Rightarrow> pystr \<Rightarrow> pystr \<Rightarrow> error + (pystr \<times> pystr)" where
  "combinePrefixWithSurnameifInBoth name0 name1 pfx =
     (let spPrefixSp = 32 # pfx @ [32]
      in if \<not> searchPrefixAndLetter spPrefixSp name0 \<or> \<not> searchPrefixAndLetter spPrefixSp name1
         then Inr (name0, name1)
         else bindE (strIndex name0 spPrefixSp) (\<lambda>i0.
              bindE (index name0 (i0 + 4)) (\<lambda>letter0.
              bindE (strIndex name1 spPrefixSp) (\<lambda>i1.
              bindE (index name1 (i1 + 4)) (\<lambda>letter1.
              if letter0 = letter1
              then Inr (replace spPrefixSp (32 # pfx) name0, replace spPrefixSp (32 # pfx) name1)
              else Inr (name0, name1))))))"

text \<open>
  The two \<^verbatim>\<open>while True\<close> loops of \<^verbatim>\<open>_cleanNamesTogether\<close>: \<^verbatim>\<open>_combineSplitWords\<close> is called
  again until it reports that it combined nothing. \<open>None\<close> stands for a loop that does
  not end.
\<close>

partial_function (option) combineAll ::
  "('a env_scheme) \<Rightarrow> pystr \<Rightarrow> pystr \<Rightarrow> (error + (pystr \<times> pystr)) option" where
  "combineAll env name0 name1 =
     (case combineSplitWords env name0 name1 of
        Inl e \<Rightarrow> Some (Inl e)
      | Inr (combined, name0, name1) \<Rightarrow>
          if combined then combineAll env name0 name1 else Some (Inr (name0, name1)))"

text \<open>A call that may raise or may not return, followed by the rest of the block.\<close>

definition bindR :: "(error + 'a) option \<Rightarrow> ('a \<Rightarrow> (error + 'b) option) \<Rightarrow> (error + 'b) option" where
  "bindR m f = (case m of None \<Rightarrow> None | Some (Inl e) \<Rightarrow> Some (Inl e) | Some (Inr x) \<Rightarrow> f x)"

definition unnecessaryPrefixes :: "pystr list" where
  "unnecessaryPrefixes = (str ''d'' @ [39]) # map str
     [''de'', ''fi'', ''santa'', ''san'', ''de la'', ''de los'', ''del'', ''la'', ''le'',
      ''du'', ''dela'', ''los'', ''der'', ''den'', ''vanden'', ''vander'', ''vande'', ''van'',
      ''von'']"

definition cleanNamesTogether ::
  "('a env_scheme) \<Rightarrow> pystr \<Rightarrow> pystr \<Rightarrow> (error + (pystr \<times> pystr)) option" where
  "cleanNamesTogether env name0 name1 =
     (if name0 = [] \<or> name1 = [] then Some (Inr (name0, name1))
      else
        bindR (Some (dealWithDashes env name0 name1)) (\<lambda>(name0, name1).
        bindR (Some (case_prod (fixMcMac env)
                       (fixRelatedPrefixes name0 name1 (str ''mac'') (str ''mc'')))) (\<lambda>names.
        bindR (Some (foldE (removeIrishO env) oNames names)) (\<lambda>(name0, name1).
        bindR (Some (foldE (removeUnnecessaryPrefixes env) unnecessaryPrefixes
                       (case_prod (\<lambda>name0 name1.
                                     fixRelatedPrefixes name0 name1 (str ''del'') (str ''dil''))
                          (fixRelatedPrefixes name0 name1 (str ''de'') (str ''di''))))) (\<lambda>(name0, name1).
        bindR (Some (combinePrefixWithSurnameifInBoth name0 name1 (str ''de''))) (\<lambda>(name0, name1).
        bindR (Some (combinePrefixWithSurnameifInBoth name0 name1 (str ''van''))) (\<lambda>(name0, name1).
        bindR (combineAll env name0 name1) (\<lambda>(name0, name1).
        bindR (combineAll env name1 name0) (\<lambda>(name1, name0).
        Some (Inr (strip (collapseWhitespace name0), strip (collapseWhitespace name1))))))))))))"

section \<open>The short and generic gates\<close>

definition eitherNameTooShort :: "('a env_scheme) \<Rightarrow> pystr \<Rightarrow> pystr \<Rightarrow> error + bool" where
  "eitherNameTooShort env name0 name1 =
     bindE (findWhichWordsMatchAndHowWell env name0 name1) (\<lambda>combo.
     let shortestWordCount = length combo
     in if shortestWordCount < 2 then Inr True else Inr False)"

definition hasRareSurname :: "('a env_scheme) \<Rightarrow> pystr \<Rightarrow> error + bool" where
  "hasRareSurname env name =
     bindE (lastWord (lower name)) (\<lambda>surname.
     if surname \<notin> set (topSurnames env) then Inr True else Inr False)"

fun initialMatches :: "pystr list \<Rightarrow> pystr list \<Rightarrow> triple list \<Rightarrow> nat \<Rightarrow> error + nat" where
  "initialMatches words0 words2 [] nonInitialMatchCount = Inr nonInitialMatchCount"
| "initialMatches words0 words2 (match # combo) nonInitialMatchCount =
     bindE (index words0 (fst match)) (\<lambda>word0.
     bindE (index words2 (fst (snd match))) (\<lambda>word1.
     let initialInWord1 = (length word0 = 1); initialInWord2 = (length word1 = 1)
     in initialMatches words0 words2 combo
          (if initialInWord1 \<or> initialInWord2 then nonInitialMatchCount + 1
           else nonInitialMatchCount)))"

definition eitherNameTooGeneric :: "('a env_scheme) \<Rightarrow> pystr \<Rightarrow> pystr \<Rightarrow> error + bool" where
  "eitherNameTooGeneric env name0 name1 =
     bindE (findWhichWordsMatchAndHowWell env name0 name1) (\<lambda>combo.
     let shortestWordCount = length combo
     in bindE (hasRareSurname env name0) (\<lambda>rare0.
        bindE (if rare0 then hasRareSurname env name1 else Inr False) (\<lambda>bothRare.
        if bothRare then Inr False
        else bindE (initialMatches (split name0) (split name1) combo 0) (\<lambda>nonInitialMatchCount.
             if shortestWordCount \<le> nonInitialMatchCount + 1 then Inr True else Inr False))))"

section \<open>Nickname substitution\<close>

text \<open>
  \<^verbatim>\<open>self.nicknameToNicknameSetNum\<close> as \<^verbatim>\<open>__init__\<close> builds it from \<^verbatim>\<open>self.nicknameSets\<close>: the
  numbers of the sets a name stands in, one entry for every occurrence, in ascending
  order; a name in no set has no entry (\<^verbatim>\<open>.get(name)\<close> is \<^verbatim>\<open>None\<close>), here the empty list.
\<close>

definition nicknameToNicknameSetNum :: "('a env_scheme) \<Rightarrow> pystr \<Rightarrow> nat list" where
  "nicknameToNicknameSetNum env name =
     concat (map (\<lambda>(i, ns). map (\<lambda>_. i) (filter (\<lambda>n. n = name) ns))
                 (enumerate 0 (nicknameSets env)))"

text \<open>\<^verbatim>\<open>\bword\b\<close> with the flag \<^verbatim>\<open>re.IGNORECASE\<close>, the word read as literal text.\<close>

definition wholeWordIgnoreCase :: "pystr \<Rightarrow> nat option \<Rightarrow> pystr \<Rightarrow> nat option" where
  "wholeWordIgnoreCase w prev rest =
     (if length w \<le> length rest \<and> lower (take (length w) rest) = lower w \<and>
         boundary prev rest \<and>
         boundary (if w = [] then prev else Some (last (take (length w) rest)))
           (drop (length w) rest)
      then Some (length w) else None)"

text \<open>
  The two inner loops of \<^verbatim>\<open>_removeNicknames\<close> for one word of the first name: the first
  nickname, in the order of the set numbers and of the iteration over each set, that
  is a word of the second name and not of the first. Every set number is an index of
  \<^verbatim>\<open>self.nicknameSets\<close>, and the word is in each of these sets, so that \<^verbatim>\<open>nicknames.remove(word0)\<close>
  finds it.
\<close>

definition nicknameInOtherName ::
  "('a env_scheme) \<Rightarrow> pystr list \<Rightarrow> pystr list \<Rightarrow> pystr \<Rightarrow> pystr option" where
  "nicknameInOtherName env words0 words1 word0 =
     find (\<lambda>nickname. \<not> (nickname \<in> set words0 \<and> nickname \<in> set words1) \<and> nickname \<in> set words1)
       (concat (map (\<lambda>num. filter (\<lambda>n. n \<noteq> word0) (set_order env (nicknameSets env ! num)))
                    (nicknameToNicknameSetNum env word0)))"

definition removeNicknames :: "('a env_scheme) \<Rightarrow> pystr \<Rightarrow> pystr \<Rightarrow> pystr \<times> pystr" where
  "removeNicknames env name0 name1 =
     (let words0 = split name0; words1 = split name1
      in (fold (\<lambda>word0 name0.
                  if word0 \<in> set words1 then name0
                  else if nicknameToNicknameSetNum env word0 = [] then name0
                  else case nicknameInOtherName env words0 words1 word0 of
                         None \<Rightarrow> name0
                       | Some nickname \<Rightarrow> re_sub (wholeWordIgnoreCase word0) nickname name0)
               words0 name0,
          name1))"

section \<open>The name modifier\<close>

definition isLowerLetter :: "nat \<Rightarrow> bool" where
  "isLowerLetter c \<longleftrightarrow> 97 \<le> c \<and> c \<le> 122"

text \<open>The patterns \<^verbatim>\<open>[a-z]+ or \<close> and \<^verbatim>\<open> or [a-z]+\<close>.\<close>

definition wordBeforeOr :: "nat option \<Rightarrow> pystr \<Rightarrow> nat option" where
  "wordBeforeOr prev rest =
     (let letters = takeWhile isLowerLetter rest
      in if letters \<noteq> [] \<and> prefix (str '' or '') (drop (length letters) rest)
         then Some (length letters + 4) else None)"

definition orWordAfter :: "nat option \<Rightarrow> pystr \<Rightarrow> nat option" where
  "orWordAfter prev rest =
     (let letters = takeWhile isLowerLetter (drop 4 rest)
      in if prefix (str '' or '') rest \<and> letters \<noteq> []
         then Some (4 + length letters) else None)"

text \<open>
  One branch of \<^verbatim>\<open>_removeOrInNames\<close>: \<open>name\<close> has the \<^verbatim>\<open>" or "\<close>, \<open>other\<close> has not. The
  result is the edited \<open>name\<close>.
\<close>

definition removeOrFrom :: "('a env_scheme) \<Rightarrow> pystr \<Rightarrow> pystr \<Rightarrow> error + pystr" where
  "removeOrFrom env name other =
     (let nameEditedA = re_sub wordBeforeOr (str '' '') name
      in bindE (findWhichWordsMatchAndHowWell env nameEditedA other) (\<lambda>wordComboA.
         bindE (averageScore env wordComboA) (\<lambda>averageScoreA.
         let nameEditedB = re_sub orWordAfter (str '' '') name
         in bindE (findWhichWordsMatchAndHowWell env nameEditedB other) (\<lambda>wordComboB.
            bindE (averageScore env wordComboB) (\<lambda>averageScoreB.
            if averageScoreB \<le> averageScoreA then Inr nameEditedA else Inr nameEditedB)))))"

definition removeOrInNames ::
  "('a env_scheme) \<Rightarrow> pystr \<Rightarrow> pystr \<Rightarrow> error + (pystr \<times> pystr)" where
  "removeOrInNames env name0 name1 =
     (let name0 = lower name0; name1 = lower name1
      in if \<not> contains (str '' or '') name0 \<and> \<not> contains (str '' or '') name1
           then Inr (name0, name1)
         else if contains (str '' or '') name0 \<and> contains (str '' or '') name1
           then Inr (name0, name1)
         else if contains (str '' or '') name0
           then bindE (removeOrFrom env name0 name1) (\<lambda>name0Edited. Inr (name0Edited, name1))
         else bindE (removeOrFrom env name1 name0) (\<lambda>name1Edited. Inr (name0, name1Edited)))"

text \<open>
  The inner loop of \<^verbatim>\<open>_fixVowelMistakes\<close> over the positions at which the two words
  differ. \<^verbatim>\<open>if mismatchedIndex:\<close> is false for \<^verbatim>\<open>None\<close> and for the index 0.
\<close>

fun findMismatch :: "nat list \<Rightarrow> nat option \<Rightarrow> nat option \<times> bool" where
  "findMismatch [] mismatchedIndex = (mismatchedIndex, False)"
| "findMismatch (i # positions) mismatchedIndex =
     (if (case mismatchedIndex of None \<Rightarrow> False | Some k \<Rightarrow> k \<noteq> 0)
      then (mismatchedIndex, True)
      else findMismatch positions (Some i))"

definition vowelFixApplies :: "pystr \<Rightarrow> pystr \<Rightarrow> bool" where
  "vowelFixApplies word0 word1 =
     (if length word0 < 5 then False
      else if length word1 < 5 then False
      else if length word0 \<noteq> length word1 then False
      else case findMismatch (filter (\<lambda>i. word0 ! i \<noteq> word1 ! i) [0..<length word0]) None of
             (mismatchedIndex, tooManyDiffs) \<Rightarrow>
               (case mismatchedIndex of
                  None \<Rightarrow> False
                | Some i \<Rightarrow>
                    if tooManyDiffs then False
                    else [word0 ! i, word1 ! i] \<in> set [str ''ao'', str ''ea'', str ''iy''] \<or>
                         [word1 ! i, word0 ! i] \<in> set [str ''ao'', str ''ea'', str ''iy'']))"

definition fixVowelMistakes ::
  "('a env_scheme) \<Rightarrow> pystr \<Rightarrow> pystr \<Rightarrow> error + (pystr \<times> pystr)" where
  "fixVowelMistakes env name0 name1 =
     bindE (getPairIndicesAndWords env name0 name1) (\<lambda>pairs.
     bindE (foldE (\<lambda>(index0, _, word0, word1) ne.
                     if vowelFixApplies word0 word1 then updateName0 ne index0 word1 else Inr ne)
              pairs (NameEditor name0 name1)) (\<lambda>ne.
     Inr (getModifiedNames ne)))"

definition dealWithWrongFirstChar ::
  "('a env_scheme) \<Rightarrow> pystr \<Rightarrow> pystr \<Rightarrow> error + (pystr \<times> pystr)" where
  "dealWithWrongFirstChar env name0 name1 =
     bindE (getPairIndicesAndWords env name0 name1) (\<lambda>pairs.
     bindE (foldE (\<lambda>(index1, _, word1, word2) ne.
                     if word1 = word2 then Inr ne
                     else if drop 1 word1 = drop 1 word2 \<and> 4 < length word1 \<and> 4 < length word2
                       then updateName0 ne index1 word2
                     else Inr ne)
              pairs (NameEditor name0 name1)) (\<lambda>ne.
     Inr (getModifiedNames ne)))"

definition modifyNamesTogether ::
  "('a env_scheme) \<Rightarrow> pystr \<Rightarrow> pystr \<Rightarrow> error + (pystr \<times> pystr)" where
  "modifyNamesTogether env name0 name1 =
     (let name0 = re_sub (wordEnd (str ''ie'')) (str ''y'') name0;
          name1 = re_sub (wordEnd (str ''ie'')) (str ''y'') name1
      in bindE (removeOrInNames env name0 name1) (\<lambda>(name0, name1).
         bindE (fixVowelMistakes env name0 name1) (\<lambda>(name0, name1).
         bindE (fixSwappedChars env name0 name1) (\<lambda>(name0, name1).
         bindE (dealWithWrongFirstChar env name0 name1) (\<lambda>(name0, name1).
         bindE (applyRules env (spellingRules env) (name0, name1)) (\<lambda>(name0, name1).
         Inr (strip (collapseWhitespace name0), strip (collapseWhitespace name1))))))))"

section \<open>The phonetic encoder\<close>

definition pronunciationHailMary :: "('a env_scheme) \<Rightarrow> pystr \<Rightarrow> pystr" where
  "pronunciationHailMary env word =
     (case namesToIpa env word of Some namePronuncation \<Rightarrow> namePronuncation | None \<Rightarrow> word @ [42])"

definition convert :: "('a env_scheme) \<Rightarrow> pystr \<Rightarrow> pystr" where
  "convert env word =
     (case syllableToIpa env word of Some ipaPronunciation \<Rightarrow> ipaPronunciation | None \<Rightarrow> word @ [42])"

definition letterToPronunciation :: "(pystr \<times> pystr) list" where
  "letterToPronunciation =
     [(str ''a'', [230]), (str ''b'', str ''b''), (str ''c'', str ''k''), (str ''d'', str ''d''),
      (str ''e'', [603]), (str ''f'', str ''f''), (str ''g'', str ''g''), (str ''h'', str ''h''),
      (str ''i'', [618]), (str ''j'', [676]), (str ''k'', str ''k''), (str ''l'', str ''l''),
      (str ''m'', str ''m''), (str ''n'', str ''n''), (str ''o'', str ''o''), (str ''p'', str ''p''),
      (str ''q'', str ''k''), (str ''r'', str ''r''), (str ''s'', str ''s''), (str ''t'', str ''t''),
      (str ''u'', str ''u''), (str ''v'', str ''v''), (str ''w'', str ''w''), (str ''x'', str ''ks''),
      (str ''y'', str ''j''), (str ''z'', str ''z'')]"

text \<open>
  \<^verbatim>\<open>substringSplitsTh\<close>, called with \<open>i < j \<le> len(word)\<close>. For \<open>i = 0\<close> the source reads
  \<^verbatim>\<open>word[-1]\<close>, the last character.
\<close>

definition substringSplitsTh :: "pystr \<Rightarrow> pystr \<Rightarrow> nat \<Rightarrow> nat \<Rightarrow> bool" where
  "substringSplitsTh substring word i j =
     (if i = j then False
      else if hd substring = 104 \<and> (if i = 0 then last word else word ! (i - 1)) = 116 then True
      else if j + 1 \<le> length word \<and> last substring = 116 \<and> word ! j = 104 then True
      else False)"

text \<open>The variables of one pass of the \<^verbatim>\<open>while\<close> loop of \<^verbatim>\<open>_getIpaOfOneWord\<close>.\<close>

record substringSearch =
  substringAdded :: bool
  largestSubstring :: pystr
  pronunciationOfLargestSubstring :: pystr
  largestSubstringLen :: nat
  beginningIndexOfSubstring :: nat
  endIndexOfSubstring :: nat

text \<open>The body of the two nested \<^verbatim>\<open>for\<close> loops, for the substring \<^verbatim>\<open>word[i:j]\<close>.\<close>

definition considerSubstring ::
  "('a env_scheme) \<Rightarrow> pystr \<Rightarrow> nat \<times> nat \<Rightarrow> substringSearch \<Rightarrow> substringSearch" where
  "considerSubstring env word ij st =
     (case ij of (i, j) \<Rightarrow>
      let substring = take (j - i) (drop i word);
          found = (\<lambda>pronunciation.
            \<lparr> substringAdded = True, largestSubstring = substring,
              pronunciationOfLargestSubstring = pronunciation,
              largestSubstringLen = length substring,
              beginningIndexOfSubstring = i, endIndexOfSubstring = j \<rparr>)
      in if length substring \<le> largestSubstringLen st then st
         else if 32 \<in> set substring then st
         else if 1 < length substring
           then (let substringIpa = convert env substring
                 in if 42 \<in> set substringIpa \<or> 2 * length substring \<le> length substringIpa \<or>
                       substringSplitsTh substring word i j
                    then st
                    else found substringIpa)
         else found (case map_of letterToPronunciation substring of
                       Some pronunciation \<Rightarrow> pronunciation
                     | None \<Rightarrow> largestSubstring st))"

definition findLargestSubstring :: "('a env_scheme) \<Rightarrow> pystr \<Rightarrow> substringSearch" where
  "findLargestSubstring env word =
     fold (considerSubstring env word)
       (concat (map (\<lambda>i. map (\<lambda>j. (i, j)) [i + 1..<length word + 1]) [0..<length word]))
       \<lparr> substringAdded = False, largestSubstring = [], pronunciationOfLargestSubstring = [],
         largestSubstringLen = 0, beginningIndexOfSubstring = 0, endIndexOfSubstring = 0 \<rparr>"

text \<open>
  The \<^verbatim>\<open>while substringAdded\<close> loop, from the test of one pass on; \<open>None\<close> stands for a
  loop that does not end.
\<close>

partial_function (option) ipaLoop ::
  "('a env_scheme) \<Rightarrow> pystr \<Rightarrow> pystr list \<Rightarrow> (error + pystr) option" where
  "ipaLoop env word pronunciationList =
     (let st = findLargestSubstring env word
      in if substringAdded st
         then (case setIndex pronunciationList (beginningIndexOfSubstring st)
                      (pronunciationOfLargestSubstring st) of
                 Inl e \<Rightarrow> Some (Inl e)
               | Inr pronunciationList \<Rightarrow>
                   ipaLoop env
                     (take (beginningIndexOfSubstring st) (rstrip word) @
                      replicate (largestSubstringLen st) 32 @
                      drop (endIndexOfSubstring st) (rstrip word))
                     pronunciationList)
         else Some (Inr (concat pronunciationList)))"

text \<open>The body of \<^verbatim>\<open>_getIpaOfOneWord\<close>, without the decorator.\<close>

definition getIpaOfOneWordBody :: "('a env_scheme) \<Rightarrow> pystr \<Rightarrow> (error + pystr) option" where
  "getIpaOfOneWordBody env word =
     (let word = lower (unidecode env (replace [32] [] word));
          pronunciationList = replicate (length word) [];
          firstAttempt = pronunciationHailMary env word
      in if 42 \<notin> set firstAttempt then Some (Inr firstAttempt)
         else ipaLoop env word pronunciationList)"

section \<open>The memoization cache\<close>

text \<open>
  The state of \<^verbatim>\<open>@lru_cache(maxsize=1000)\<close> on \<^verbatim>\<open>_getIpaOfOneWord\<close> for one comparator: the
  words and their results, the most recently used first. A computation that uses the
  cache takes it and returns it with its result; \<open>None\<close> stands for a computation that
  does not return.
\<close>

type_synonym cache = "(pystr \<times> pystr) list"

type_synonym 'a cached = "cache \<Rightarrow> ((error + 'a) \<times> cache) option"

definition bindC :: "'a cached \<Rightarrow> ('a \<Rightarrow> 'b cached) \<Rightarrow> 'b cached" where
  "bindC m f cache =
     (case m cache of
        None \<Rightarrow> None
      | Some (Inl e, cache') \<Rightarrow> Some (Inl e, cache')
      | Some (Inr x, cache') \<Rightarrow> f x cache')"

definition uncached :: "(error + 'a) option \<Rightarrow> 'a cached" where
  "uncached r cache = map_option (\<lambda>x. (x, cache)) r"

definition raising :: "error + 'a \<Rightarrow> 'a cached" where
  "raising r = uncached (Some r)"

definition returning :: "'a \<Rightarrow> 'a cached" where
  "returning x = uncached (Some (Inr x))"

text \<open>
  \<^verbatim>\<open>_getIpaOfOneWord\<close> as decorated: a hit returns the stored result and makes the entry
  the most recent one; a miss runs the body and stores its result, the least recently
  used entry making room when there are more than 1000. An exception is not stored.
\<close>

definition getIpaOfOneWord :: "('a env_scheme) \<Rightarrow> pystr \<Rightarrow> pystr cached" where
  "getIpaOfOneWord env word cache =
     (case map_of cache word of
        Some ipa \<Rightarrow> Some (Inr ipa, (word, ipa) # filter (\<lambda>entry. fst entry \<noteq> word) cache)
      | None \<Rightarrow>
          (case getIpaOfOneWordBody env word of
             None \<Rightarrow> None
           | Some (Inl e) \<Rightarrow> Some (Inl e, cache)
           | Some (Inr ipa) \<Rightarrow> Some (Inr ipa, take 1000 ((word, ipa) # cache))))"

fun getIpaOfWords :: "('a env_scheme) \<Rightarrow> pystr list \<Rightarrow> pystr list cached" where
  "getIpaOfWords env [] = returning []"
| "getIpaOfWords env (word # ws) =
     bindC (getIpaOfOneWord env word) (\<lambda>ipa.
     bindC (getIpaOfWords env ws) (\<lambda>pList.
     returning (ipa # pList)))"

definition getPronunciation :: "('a env_scheme) \<Rightarrow> pystr \<Rightarrow> pystr cached" where
  "getPronunciation env name =
     bindC (getIpaOfWords env (split name)) (\<lambda>pList. returning (join pList))"

section \<open>The pronunciation matcher\<close>

definition allIpaConsonants :: "nat list" where
  "allIpaConsonants =
     [108, 100, 122, 98, 116, 107, 110, 115, 119, 118, 240, 658, 679, 952, 104, 103, 676, 331,
      112, 109, 643, 102, 106, 114]"

definition cleanIpa :: "pystr \<Rightarrow> pystr" where
  "cleanIpa ipa =
     (let ipa = fold (\<lambda>consonant ipa.
                        if contains [consonant, consonant] ipa
                        then replace [consonant, consonant] [consonant] ipa else ipa)
                  allIpaConsonants ipa;
          ipa = replace [603, 603] [105] ipa;
          ipa = replace [618, 618] [618] ipa;
          ipa = replace [105, 618] [105] ipa;
          ipa = replace [331, 103] [331] ipa;
          ipa = replace [44] [] ipa
      in ipa)"

definition modifyIpasTogether ::
  "('a env_scheme) \<Rightarrow> pystr \<Rightarrow> pystr \<Rightarrow> error + (pystr \<times> pystr)" where
  "modifyIpasTogether env ipa0 ipa1 = applyRules env (ipaRules env) (ipa0, ipa1)"

text \<open>
  The score of the IPA words \<open>i\<close> and \<open>j\<close>: their ratio, unless the alignment of the
  names has an entry for \<open>i\<close> and \<open>j\<close> with the score 100 or 0.
\<close>

definition ipaPairScore ::
  "('a env_scheme) \<Rightarrow> triple list \<Rightarrow> nat \<Rightarrow> nat \<Rightarrow> pystr \<Rightarrow> pystr \<Rightarrow> int" where
  "ipaPairScore env wordCombo i j ipaWord0 ipaWord1 =
     fold (\<lambda>(index1, index2, initialScore) score.
             if i = index1 \<and> j = index2 \<and> (initialScore = 100 \<or> initialScore = 0)
             then initialScore else score)
          wordCombo (ratio env ipaWord0 ipaWord1)"

definition ipaScores ::
  "('a env_scheme) \<Rightarrow> triple list \<Rightarrow> pystr list \<Rightarrow> pystr list \<Rightarrow> triple list" where
  "ipaScores env wordCombo ipaWords0 ipaWords1 =
     concat (map (\<lambda>(i, ipaWord0).
                    map (\<lambda>(j, ipaWord1). (i, j, ipaPairScore env wordCombo i j ipaWord0 ipaWord1))
                        (enumerate 0 ipaWords1))
                 (enumerate 0 ipaWords0))"

text \<open>\<^verbatim>\<open>min(xs, key=key)\<close>: the first element with the smallest key; ValueError on \<open>[]\<close>.\<close>

fun pymin :: "('a \<Rightarrow> int) \<Rightarrow> 'a list \<Rightarrow> error + 'a" where
  "pymin key [] = Inl ValueError"
| "pymin key (x # xs) = Inr (fold (\<lambda>y best. if key y < key best then y else best) xs x)"

definition pronunciationComparison ::
  "('a env_scheme) \<Rightarrow> pystr \<Rightarrow> pystr \<Rightarrow> (bool \<times> triple list \<times> pystr \<times> pystr) cached" where
  "pronunciationComparison env name0 name1 =
     bindC (raising (findWhichWordsMatchAndHowWell env name0 name1)) (\<lambda>wordCombo.
     bindC (getPronunciation env name0) (\<lambda>ipaOfName0.
     bindC (getPronunciation env name1) (\<lambda>ipaOfName1.
     bindC (raising (modifyIpasTogether env (cleanIpa ipaOfName0) (cleanIpa ipaOfName1)))
       (\<lambda>(ipaOfName0, ipaOfName1).
     let ipaWords0 = split ipaOfName0;
         ipaWords1 = split ipaOfName1;
         scores = ipaScores env wordCombo ipaWords0 ipaWords1;
         minLength = min (length ipaWords0) (length ipaWords1);
         validCombinations = filter validCombination (combinations scores minLength)
     in bindC (raising (pymax comboSum validCombinations)) (\<lambda>maxCombination.
        bindC (raising (pymin (\<lambda>tuple. snd (snd tuple)) maxCombination)) (\<lambda>lowest.
        let lowestScore = snd (snd lowest)
        in if minLength \<le> 2
           then returning (80 \<le> lowestScore, maxCombination, ipaOfName0, ipaOfName1)
           else returning (75 < lowestScore, maxCombination, ipaOfName0, ipaOfName1)))))))"

section \<open>The pipeline controller\<close>

type_synonym attempt = "pystr \<times> pystr \<times> triple list"

record data =
  match :: bool
  tooGeneric :: bool
  tooShort :: bool
  attempt1 :: "attempt option"
  attempt2 :: "attempt option"
  attempt3 :: "attempt option"
  attempt4 :: "attempt option"

definition compareTwoNames :: "('a env_scheme) \<Rightarrow> pystr \<Rightarrow> pystr \<Rightarrow> data cached" where
  "compareTwoNames env name0 name1 =
     (let data = \<lparr> match = False, tooGeneric = False, tooShort = False, attempt1 = None,
                   attempt2 = None, attempt3 = None, attempt4 = None \<rparr>;
          name0 = cleanNameByItself env name0;
          name1 = cleanNameByItself env name1
      in bindC (uncached (cleanNamesTogether env name0 name1)) (\<lambda>(name0, name1).
         bindC (raising (eitherNameTooShort env name0 name1)) (\<lambda>short.
         let data = data\<lparr>tooShort := short\<rparr>
         in bindC (raising (eitherNameTooGeneric env name0 name1)) (\<lambda>generic.
         let data = data\<lparr>tooGeneric := generic\<rparr>
         in case removeNicknames env name0 name1 of (name0, name1) \<Rightarrow>
         bindC (raising (spellingComparison env name0 name1)) (\<lambda>(matched, wordCombo).
         let data = data\<lparr>attempt1 := Some (name0, name1, wordCombo)\<rparr>
         in if matched then returning (data\<lparr>match := True\<rparr>)
            else
         bindC (raising (isWorthContinuing env name0 name1)) (\<lambda>worth.
         if \<not> worth then returning data
         else
         bindC (raising (modifyNamesTogether env name0 name1)) (\<lambda>(modifiedName0, modifiedName1).
         bindC (raising (spellingComparison env modifiedName0 modifiedName1)) (\<lambda>(matched, wordCombo).
         let data = data\<lparr>attempt2 := Some (modifiedName0, modifiedName1, wordCombo)\<rparr>
         in if matched then returning (data\<lparr>match := True\<rparr>)
            else
         bindC (pronunciationComparison env modifiedName0 modifiedName1)
           (\<lambda>(matched, wordCombo, ipaModifiedName0, ipaModifiedName1).
         let data = data\<lparr>attempt3 := Some (ipaModifiedName0, ipaModifiedName1, wordCombo)\<rparr>
         in if matched then returning (data\<lparr>match := True\<rparr>)
            else
         bindC (pronunciationComparison env name0 name1)
           (\<lambda>(matched, wordCombo, ipaName0, ipaName1).
         let data = data\<lparr>attempt4 := Some (ipaName0, ipaName1, wordCombo)\<rparr>
         in if matched then returning (data\<lparr>match := True\<rparr>)
            else returning data))))))))))"

section \<open>Consistent caches\<close>

text \<open>
  A cache is consistent when every entry holds what the body of \<^verbatim>\<open>_getIpaOfOneWord\<close>
  returns for its word. The cache of a new comparator is empty.
\<close>

definition cacheConsistent :: "('a env_scheme) \<Rightarrow> cache \<Rightarrow> bool" where
  "cacheConsistent env cache \<longleftrightarrow>
     (\<forall>entry \<in> set cache. getIpaOfOneWordBody env (fst entry) = Some (Inr (snd entry)))"

text \<open>
  A computation is transparent when, from two consistent caches, it either returns
  nothing both times, or returns the same result (value or exception) both times and
  leaves consistent caches.
\<close>

definition transparent :: "('a env_scheme) \<Rightarrow> 'b cached \<Rightarrow> bool" where
  "transparent env m \<longleftrightarrow>
     (\<forall>c1 c2. cacheConsistent env c1 \<longrightarrow> cacheConsistent env c2 \<longrightarrow>
        (case m c1 of
           None \<Rightarrow> m c2 = None
         | Some (r1, c1') \<Rightarrow>
             cacheConsistent env c1' \<and> (\<exists>c2'. m c2 = Some (r1, c2') \<and> cacheConsistent env c2')))"

section \<open>Names in cleaned form\<close>

text \<open>
  A name in cleaned form: lower-case letters and single spaces, no space at either
  end, none of the words and texts that the cleaner removes, and no word \<^verbatim>\<open>van\<close> before a
  word that begins with \<^verbatim>\<open>de\<close>. \<open>hasWord w s\<close>: \<open>w\<close> is one of the words of such a name.
\<close>

definition hasWord :: "pystr \<Rightarrow> pystr \<Rightarrow> bool" where
  "hasWord w s = contains (32 # w @ [32]) (32 # s @ [32])"

definition removedWords :: "pystr list" where
  "removedWords = map str
     [''jr'', ''sr'', ''prof'', ''mr'', ''mrs'', ''ms'', ''dr'', ''student'', ''rev'',
      ''sister'', ''brother'', ''mother'', ''father'']"

definition removedTexts :: "pystr list" where
  "removedTexts = map str
     [''reverend'', '' in law'', ''head of household'', '' the '', ''no suffix'']"

definition romanNumerals :: "pystr list" where
  "romanNumerals = [str ''ii'', str ''iii'', str ''iv'']"

definition inCleanedForm :: "pystr \<Rightarrow> bool" where
  "inCleanedForm s \<longleftrightarrow>
     s \<noteq> [] \<and> (\<forall>c \<in> set s. isLowerLetter c \<or> c = 32) \<and> hd s \<noteq> 32 \<and> last s \<noteq> 32 \<and>
     \<not> contains [32, 32] s \<and>
     (\<forall>w \<in> set removedWords. \<not> hasWord w s) \<and>
     (\<forall>t \<in> set removedTexts. \<not> contains t s) \<and>
     (\<forall>w \<in> set (split s). w \<notin> set romanNumerals) \<and>
     \<not> contains (str '' van de'') (32 # s)"

section \<open>A concrete comparator\<close>

text \<open>
  The instances of the theorems are stated for one concrete comparator: the similarity
  functions as the glossary of the specification describes them, and small tables.
\<close>

text \<open>
  Modelled from the spec: the length \<open>M\<close> of a longest common subsequence, from which
  the glossary's "Levenshtein-derived similarity" of the library function \<^verbatim>\<open>fuzz.ratio\<close>
  (not part of the sources) is computed.
\<close>

fun lcs :: "pystr \<Rightarrow> pystr \<Rightarrow> nat" where
  "lcs [] ys = 0"
| "lcs (x # xs) [] = 0"
| "lcs (x # xs) (y # ys) =
     (if x = y then Suc (lcs xs ys) else max (lcs xs (y # ys)) (lcs (x # xs) ys))"

text \<open>
  Modelled from the spec: \<^verbatim>\<open>int(round(p / q))\<close>, with which the library turns a similarity
  into an integer in \<open>[0,100]\<close>; Python rounds a half to the even neighbour.
\<close>

definition pyround :: "int \<Rightarrow> int \<Rightarrow> int" where
  "pyround p q =
     (let d = p div q; r = p mod q
      in if 2 * r < q then d else if q < 2 * r then d + 1 else if even d then d else d + 1)"

text \<open>
  Modelled from the spec: \<^verbatim>\<open>fuzz.ratio\<close>, the "Levenshtein-derived similarity in
  \<open>[0,100]\<close>": \<open>2 * M / T\<close> in percent, with \<open>T\<close> the sum of the two lengths; equal
  strings score 100 and an empty string scores 0.
\<close>

definition fuzz_ratio :: "pystr \<Rightarrow> pystr \<Rightarrow> int" where
  "fuzz_ratio s1 s2 =
     (if s1 = s2 then 100
      else if s1 = [] \<or> s2 = [] then 0
      else pyround (200 * int (lcs s1 s2)) (int (length s1 + length s2)))"

text \<open>
  Modelled from the spec: \<^verbatim>\<open>fuzz.partial_ratio\<close>, the "best ratio over any substring of
  the longer string of equal length to the shorter".
\<close>

definition fuzz_partial_ratio :: "pystr \<Rightarrow> pystr \<Rightarrow> int" where
  "fuzz_partial_ratio s1 s2 =
     (if s1 = s2 then 100
      else if s1 = [] \<or> s2 = [] then 0
      else let shorter = (if length s1 \<le> length s2 then s1 else s2);
               longer = (if length s1 \<le> length s2 then s2 else s1)
           in fold max
                (map (\<lambda>i. fuzz_ratio shorter (take (length shorter) (drop i longer)))
                     [0..<Suc (length longer - length shorter)]) 0)"

text \<open>
  The comparator of the instances. Its \<open>unidecode\<close> is the identity, as the library
  function is on the ASCII strings of the instances; none of the instances reaches the
  floating-point arithmetic, and \<open>fround\<close> is left exact; \<open>set_order\<close> keeps the order
  of first occurrence. The tables stand for the JSON files, which are not part of the
  sources.
\<close>

definition exampleEnv :: env where
  "exampleEnv =
     \<lparr> ratio = fuzz_ratio, partial_ratio = fuzz_partial_ratio, unidecode = (\<lambda>s. s),
       fround = (\<lambda>x. x), set_order = remdups,
       namesToIpa = map_of [(str ''john'', [676, 593, 110])],
       syllableToIpa = map_of [(str ''th'', [952]), (str ''sh'', [643])],
       topSurnames = [str ''smith'', str ''jones''],
       ipaRules = [],
       spellingRules = [],
       nicknameSets = [[str ''robert'', str ''bob'', str ''rob''],
                       [str ''william'', str ''bill'', str ''guillermo'']] \<rparr>"

section \<open>Properties of the aligner\<close>

lemma split_acc_nonempty: "w \<in> set (split_acc cur s) \<Longrightarrow> w \<noteq> []"
  by (induction s arbitrary: cur) (auto split: if_splits)

lemma split_nonempty: "w \<in> set (split s) \<Longrightarrow> w \<noteq> []"
  unfolding split_def by (rule split_acc_nonempty)

lemma in_allScores:
  "(i, j, s) \<in> set (allScores env words0 words1) \<longleftrightarrow>
     i < length words0 \<and> j < length words1 \<and> s = pairScore env (words0 ! i) (words1 ! j)"
proof
  assume "(i, j, s) \<in> set (allScores env words0 words1)"
  then show "i < length words0 \<and> j < length words1 \<and>
      s = pairScore env (words0 ! i) (words1 ! j)"
    by (auto simp: allScores_def in_set_enumerate_eq)
next
  assume r: "i < length words0 \<and> j < length words1 \<and>
      s = pairScore env (words0 ! i) (words1 ! j)"
  then have "(i, words0 ! i) \<in> set (enumerate 0 words0)"
    and "(j, words1 ! j) \<in> set (enumerate 0 words1)"
    by (simp_all add: in_set_enumerate_eq)
  then show "(i, j, s) \<in> set (allScores env words0 words1)"
    using r unfolding allScores_def by force
qed

text \<open>
  C5. Every entry \<open>(i, j, s)\<close> of the score table is the score of the words \<open>i\<close> and
  \<open>j\<close>: if one of the two words is a single letter, \<open>s\<close> is 100 when the first
  characters are equal and 0 otherwise; if both are longer, \<open>s\<close> is the larger of ratio
  and partial ratio when the first characters are equal, and the ratio when they differ.
\<close>

theorem pair_score_cases:
  assumes "(i, j, s) \<in> set (allScores env (split name0) (split name1))"
  defines "word0 \<equiv> split name0 ! i" and "word1 \<equiv> split name1 ! j"
  shows "word0 \<noteq> [] \<and> word1 \<noteq> [] \<and>
         (length word0 = 1 \<or> length word1 = 1 \<longrightarrow>
            s = (if hd word0 = hd word1 then 100 else 0)) \<and>
         (length word0 > 1 \<and> length word1 > 1 \<longrightarrow>
            s = (if hd word0 = hd word1
                 then max (ratio env word0 word1) (partial_ratio env word0 word1)
                 else ratio env word0 word1))"
proof -
  from assms(1) have i: "i < length (split name0)" and j: "j < length (split name1)"
    and s: "s = pairScore env word0 word1"
    by (simp_all add: in_allScores word0_def word1_def)
  have "word0 \<in> set (split name0)" "word1 \<in> set (split name1)"
    using i j by (simp_all add: word0_def word1_def)
  then have "word0 \<noteq> []" "word1 \<noteq> []"
    by (auto dest: split_nonempty)
  then show ?thesis
    unfolding s pairScore_def Let_def by auto
qed

lemma combinations_length: "c \<in> set (combinations xs k) \<Longrightarrow> length c = k"
  by (induction xs k arbitrary: c rule: combinations.induct) auto

lemma combinations_subset: "c \<in> set (combinations xs k) \<Longrightarrow> set c \<subseteq> set xs"
  by (induction xs k arbitrary: c rule: combinations.induct) fastforce+

lemma subseq_in_combinations: "subseq ys xs \<Longrightarrow> ys \<in> set (combinations xs (length ys))"
proof (induction xs arbitrary: ys)
  case Nil
  then have "ys = []" by (rule list_emb_Nil2)
  then show ?case by simp
next
  case (Cons x xs)
  show ?case
  proof (cases ys)
    case Nil
    then show ?thesis by simp
  next
    case (Cons y ys')
    with Cons.prems have "(x = y \<and> subseq ys' xs) \<or> subseq (y # ys') xs"
      by (auto simp: subseq_Cons2_iff split: if_splits)
    then show ?thesis
      using Cons.IH[of ys'] Cons.IH[of "y # ys'"] Cons by auto
  qed
qed

lemma validCombination_distinct:
  "validCombination c \<longleftrightarrow> distinct (map fst c) \<and> distinct (map (fst \<circ> snd) c)"
  unfolding validCombination_def
  by (metis card_distinct distinct_card length_map)

lemma diagonal_exists:
  "\<exists>c. subseq c (scoreRows env words1 m ws) \<and> length c = min (length ws) (length words1 - m) \<and>
       map fst c = [m..<m + length c] \<and> map (fst \<circ> snd) c = [m..<m + length c]"
proof (induction ws arbitrary: m)
  case Nil
  show ?case by (simp add: scoreRows_def)
next
  case (Cons w ws)
  let ?row = "map (\<lambda>(j, word1). (m, j, pairScore env w word1)) (enumerate 0 words1)"
  have rows: "scoreRows env words1 m (w # ws) = ?row @ scoreRows env words1 (Suc m) ws"
    by (simp add: scoreRows_def)
  from Cons.IH[of "Suc m"] obtain c where c: "subseq c (scoreRows env words1 (Suc m) ws)"
    "length c = min (length ws) (length words1 - Suc m)"
    "map fst c = [Suc m..<Suc m + length c]" "map (fst \<circ> snd) c = [Suc m..<Suc m + length c]"
    by blast
  show ?case
  proof (cases "m < length words1")
    case True
    let ?x = "(m, m, pairScore env w (words1 ! m))"
    have "(m, words1 ! m) \<in> set (enumerate 0 words1)"
      using True by (simp add: in_set_enumerate_eq)
    then have "?x \<in> set ?row" by force
    then have "subseq [?x] ?row" by (simp add: subseq_singleton_left)
    then have "subseq ([?x] @ c) (?row @ scoreRows env words1 (Suc m) ws)"
      using c(1) by (rule list_emb_append_mono)
    then have s1: "subseq (?x # c) (scoreRows env words1 m (w # ws))"
      unfolding rows by simp
    have l1: "length (?x # c) = min (length (w # ws)) (length words1 - m)"
      using c(2) True by auto
    have u: "[m..<m + length (?x # c)] = m # [Suc m..<Suc m + length c]"
      by (simp add: upt_rec)
    have m1: "map fst (?x # c) = [m..<m + length (?x # c)]"
      unfolding u using c(3) by simp
    have m2: "map (fst \<circ> snd) (?x # c) = [m..<m + length (?x # c)]"
      unfolding u using c(4) by simp
    show ?thesis by (intro exI[of _ "?x # c"] conjI s1 l1 m1 m2)
  next
    case False
    then show ?thesis by (intro exI[of _ "[]"]) simp
  qed
qed

lemma valid_combination_exists:
  "filter validCombination
     (combinations (allScores env words0 words1) (min (length words0) (length words1))) \<noteq> []"
proof -
  from diagonal_exists[of env words1 0 words0] obtain c where
    c: "subseq c (allScores env words0 words1)" "length c = min (length words0) (length words1)"
    "map fst c = [0..<length c]" "map (fst \<circ> snd) c = [0..<length c]"
    by (auto simp: scoreRows_def allScores_def)
  have "c \<in> set (combinations (allScores env words0 words1) (min (length words0) (length words1)))"
    using subseq_in_combinations[OF c(1)] c(2) by simp
  moreover have "validCombination c"
    by (simp add: validCombination_distinct c(3,4))
  ultimately show ?thesis
    by (auto simp: filter_empty_conv)
qed

lemma pymax_fold_in: "fold (\<lambda>y best. if key best < key y then y else best) xs x \<in> set (x # xs)"
  by (induction xs arbitrary: x) auto

lemma pymax_in: "xs \<noteq> [] \<Longrightarrow> \<exists>m. pymax key xs = Inr m \<and> m \<in> set xs"
  using pymax_fold_in[of key] by (cases xs) auto

lemma mostLetters_fold:
  "fold (\<lambda>combo (bestCombo, maxLetterCount).
           if maxLetterCount < letterCount words0 words1 combo
           then (combo, letterCount words0 words1 combo)
           else (bestCombo, maxLetterCount)) cs (b, n) = (b', n') \<Longrightarrow>
   (b' = b \<and> n' = n \<and> (\<forall>c \<in> set cs. letterCount words0 words1 c \<le> n)) \<or>
   (b' \<in> set cs \<and> n < n')"
proof (induction cs arbitrary: b n)
  case Nil
  then show ?case by simp
next
  case (Cons c cs)
  show ?case
  proof (cases "n < letterCount words0 words1 c")
    case True
    with Cons.prems Cons.IH[of c "letterCount words0 words1 c"] show ?thesis
      by (auto simp: )
  next
    case False
    with Cons.prems Cons.IH[of b n] show ?thesis by auto
  qed
qed

lemma mostLetters_in:
  assumes "c \<in> set cs" "0 < letterCount words0 words1 c"
  shows "mostLetters words0 words1 cs \<in> set cs"
proof -
  obtain b' n' where f: "fold (\<lambda>combo (bestCombo, maxLetterCount).
           if maxLetterCount < letterCount words0 words1 combo
           then (combo, letterCount words0 words1 combo)
           else (bestCombo, maxLetterCount)) cs ([], 0) = (b', n')"
    by (cases "fold (\<lambda>combo (bestCombo, maxLetterCount).
           if maxLetterCount < letterCount words0 words1 combo
           then (combo, letterCount words0 words1 combo)
           else (bestCombo, maxLetterCount)) cs ([], 0)") auto
  from mostLetters_fold[OF f] assms have "b' \<in> set cs" by auto
  then show ?thesis by (simp add: mostLetters_def f)
qed

lemma letterCount_pos:
  assumes "c \<noteq> []" "set c \<subseteq> set (allScores env (split name0) (split name1))"
  shows "0 < letterCount (split name0) (split name1) c"
proof -
  obtain x y s c' where c: "c = (x, y, s) # c'" using assms(1) by (cases c) auto
  then have "x < length (split name0)" using assms(2) by (auto simp: in_allScores)
  then have "split name0 ! x \<noteq> []" using split_nonempty[of "split name0 ! x" name0] by simp
  then show ?thesis by (simp add: c letterCount_def)
qed

lemma mostLetters_cases:
  "mostLetters words0 words1 cs \<in> set cs \<or>
   (mostLetters words0 words1 cs = [] \<and> (\<forall>c \<in> set cs. letterCount words0 words1 c = 0))"
proof -
  obtain b' n' where f: "fold (\<lambda>combo (bestCombo, maxLetterCount).
           if maxLetterCount < letterCount words0 words1 combo
           then (combo, letterCount words0 words1 combo)
           else (bestCombo, maxLetterCount)) cs ([], 0) = (b', n')"
    by fastforce
  have m: "mostLetters words0 words1 cs = b'"
    by (simp add: mostLetters_def f)
  from mostLetters_fold[OF f] show ?thesis unfolding m by auto
qed

lemma valid_combination_props:
  assumes "c \<in> set (filter validCombination (combinations (allScores env w0 w1) k))"
  shows "length c = k" "distinct (map fst c)" "distinct (map (fst \<circ> snd) c)"
    "set c \<subseteq> set (allScores env w0 w1)"
proof -
  from assms have c: "c \<in> set (combinations (allScores env w0 w1) k)" and v: "validCombination c"
    by simp_all
  show "length c = k" using c by (rule combinations_length)
  show "set c \<subseteq> set (allScores env w0 w1)" using c by (rule combinations_subset)
  show "distinct (map fst c)" "distinct (map (fst \<circ> snd) c)"
    using v by (simp_all add: validCombination_distinct)
qed

text \<open>
  The aligner never raises, and what it returns is one of the valid combinations: as
  many entries as the shorter name has words, no index twice, every entry taken from
  the score table.
\<close>

lemma findWhich_returns:
  obtains al where "findWhichWordsMatchAndHowWell env name0 name1 = Inr al"
    and "length al = min (length (split name0)) (length (split name1))"
    and "distinct (map fst al)" and "distinct (map (fst \<circ> snd) al)"
    and "set al \<subseteq> set (allScores env (split name0) (split name1))"
proof -
  define w0 where "w0 = split name0"
  define w1 where "w1 = split name1"
  define k where "k = min (length w0) (length w1)"
  define V where "V = filter validCombination (combinations (allScores env w0 w1) k)"
  have "V \<noteq> []" unfolding V_def k_def by (rule valid_combination_exists)
  then obtain best where best: "pymax comboSum V = Inr best" "best \<in> set V"
    using pymax_in by blast
  define M where "M = filter (\<lambda>combo. comboSum combo = comboSum best) V"
  define al where "al = mostLetters w0 w1 M"
  have res: "findWhichWordsMatchAndHowWell env name0 name1 = Inr al"
    unfolding findWhichWordsMatchAndHowWell_def Let_def
    using best(1) by (simp add: al_def M_def V_def k_def w0_def w1_def)
  have bestM: "best \<in> set M" using best(2) by (simp add: M_def)
  have MV: "set M \<subseteq> set V" by (auto simp: M_def)
  have "al \<in> set V \<or> (al = [] \<and> k = 0)"
  proof (cases "al \<in> set M")
    case True
    then show ?thesis using MV by blast
  next
    case False
    with mostLetters_cases[of w0 w1 M]
    have e: "al = []" and z: "letterCount w0 w1 best = 0"
      using bestM unfolding al_def by blast+
    have bs: "set best \<subseteq> set (allScores env (split name0) (split name1))"
      and bl: "length best = k"
      using valid_combination_props(1,4)[of best env w0 w1 k] best(2)
      unfolding V_def w0_def w1_def by blast+
    have "best = []"
    proof (rule ccontr)
      assume "best \<noteq> []"
      from letterCount_pos[OF this bs] z show False by (simp add: w0_def w1_def)
    qed
    then have "k = 0" using bl by simp
    with e show ?thesis by simp
  qed
  then show thesis
  proof
    assume "al \<in> set V"
    then have a: "al \<in> set (filter validCombination (combinations (allScores env w0 w1) k))"
      by (simp add: V_def)
    show thesis
      using that[OF res] valid_combination_props[OF a]
      unfolding k_def w0_def w1_def by blast
  next
    assume "al = [] \<and> k = 0"
    then show thesis
      using that[OF res] unfolding k_def w0_def w1_def by simp
  qed
qed

text \<open>
  C4. For two names with at least one word each, the alignment has exactly as many
  entries as the shorter name has words, its left indices are pairwise distinct and its
  right indices are pairwise distinct.
\<close>

theorem alignment_cardinality_one_to_one:
  assumes "split name0 \<noteq> []" and "split name1 \<noteq> []"
  shows "\<exists>al. findWhichWordsMatchAndHowWell env name0 name1 = Inr al \<and>
           length al = min (length (split name0)) (length (split name1)) \<and>
           distinct (map fst al) \<and> distinct (map (fst \<circ> snd) al)"
proof -
  obtain al where "findWhichWordsMatchAndHowWell env name0 name1 = Inr al"
    "length al = min (length (split name0)) (length (split name1))"
    "distinct (map fst al)" "distinct (map (fst \<circ> snd) al)"
    by (rule findWhich_returns)
  then show ?thesis by blast
qed

lemmas eval_strings = str_def split_def isspace_def

lemmas eval_fuzz = fuzz_ratio_def fuzz_partial_ratio_def pyround_def

lemma exampleEnv_simps:
  "ratio exampleEnv = fuzz_ratio" "partial_ratio exampleEnv = fuzz_partial_ratio"
  "unidecode exampleEnv = (\<lambda>s. s)" "set_order exampleEnv = remdups"
  "fround exampleEnv = (\<lambda>x. x)"
  "topSurnames exampleEnv = [str ''smith'', str ''jones'']"
  "ipaRules exampleEnv = []" "spellingRules exampleEnv = []"
  "nicknameSets exampleEnv = [[str ''robert'', str ''bob'', str ''rob''],
                       [str ''william'', str ''bill'', str ''guillermo'']]"
  by (simp_all add: exampleEnv_def)

lemma fuzz_same: "fuzz_ratio s s = 100" "fuzz_partial_ratio s s = 100"
  by (simp_all add: fuzz_ratio_def fuzz_partial_ratio_def)

lemma split_ab_cd: "split (str ''ab cd'') = [str ''ab'', str ''cd'']"
  by (simp add: eval_strings)

lemma split_cd: "split (str ''cd'') = [str ''cd'']"
  by (simp add: eval_strings)

lemma ratio_ab_cd: "fuzz_ratio (str ''ab'') (str ''cd'') = 0"
  "fuzz_partial_ratio (str ''ab'') (str ''cd'') = 0"
  by (simp_all add: eval_fuzz str_def)

lemma scores_ab_cd:
  "allScores exampleEnv [str ''ab'', str ''cd''] [str ''cd''] = [(0, 0, 0), (1, 0, 100)]"
  by (simp add: allScores_def pairScore_def exampleEnv_simps ratio_ab_cd fuzz_same)
     (simp add: str_def)

lemma align_ab_cd: "findWhichWordsMatchAndHowWell exampleEnv (str ''ab cd'') (str ''cd'') =
  Inr [(1, 0, 100)]"
  by (simp add: findWhichWordsMatchAndHowWell_def Let_def split_ab_cd split_cd scores_ab_cd
      validCombination_def comboSum_def mostLetters_def letterCount_def)
     (simp add: str_def)

theorem alignment_cardinality_one_to_one_witness:
  "split (str ''ab cd'') \<noteq> [] \<and> split (str ''cd'') \<noteq> [] \<and>
   (\<exists>al. findWhichWordsMatchAndHowWell exampleEnv (str ''ab cd'') (str ''cd'') = Inr al \<and>
      length al = 1 \<and> distinct (map fst al) \<and> distinct (map (fst \<circ> snd) al))"
proof -
  have h: "split (str ''ab cd'') \<noteq> []" "split (str ''cd'') \<noteq> []"
    by (simp_all add: split_ab_cd split_cd)
  have "min (length (split (str ''ab cd''))) (length (split (str ''cd''))) = 1"
    by (simp add: split_ab_cd split_cd)
  with alignment_cardinality_one_to_one[OF h, of exampleEnv] h show ?thesis by simp
qed

theorem pair_score_cases_witness:
  "(1, 0, 100) \<in> set (allScores exampleEnv (split (str ''ab cd'')) (split (str ''cd''))) \<and>
   split (str ''ab cd'') ! 1 \<noteq> [] \<and> split (str ''cd'') ! 0 \<noteq> []"
proof -
  have m: "(1, 0, 100) \<in> set (allScores exampleEnv (split (str ''ab cd'')) (split (str ''cd'')))"
    by (simp add: split_ab_cd split_cd scores_ab_cd)
  from pair_score_cases[OF m] m show ?thesis by simp
qed

section \<open>Properties of the matcher, the gate and the swap repair\<close>

lemma bindE_simps [simp]: "bindE (Inr x) f = f x" "bindE (Inl e) f = Inl e"
  by (simp_all add: bindE_def)

lemma index_in_range [simp]: "i < length xs \<Longrightarrow> index xs i = Inr (xs ! i)"
  by (simp add: index_def)

lemma setIndex_in_range [simp]: "i < length xs \<Longrightarrow> setIndex xs i v = Inr (xs[i := v])"
  by (simp add: setIndex_def)

lemma consonantMatches_returns:
  assumes "\<forall>t \<in> set wc. fst t < length (split name0) \<and> fst (snd t) < length (split name1)"
  shows "\<exists>n. consonantMatches env name0 name1 wc k = Inr n"
  using assms by (induction wc arbitrary: k) auto

lemma alignment_indices_in_range:
  assumes "set al \<subseteq> set (allScores env w0 w1)"
  shows "\<forall>t \<in> set al. fst t < length w0 \<and> fst (snd t) < length w1"
proof
  fix t assume "t \<in> set al"
  then have "t \<in> set (allScores env w0 w1)"
    using assms by auto
  moreover obtain i j s where "t = (i, j, s)" by (cases t) auto
  ultimately show "fst t < length w0 \<and> fst (snd t) < length w1"
    by (simp add: in_allScores)
qed


lemma split_acc_length:
  "length (split_acc [] s) \<le> length s \<and> length (split_acc cur s) \<le> Suc (length s)"
proof (induction s arbitrary: cur)
  case Nil
  show ?case by simp
next
  case (Cons c s)
  from Cons[of "[]"] have a: "length (split_acc [] s) \<le> length s" by simp
  from Cons[of "[c]"] have b: "length (split_acc [c] s) \<le> Suc (length s)" by simp
  from Cons[of "cur @ [c]"] have d: "length (split_acc (cur @ [c]) s) \<le> Suc (length s)" by simp
  show ?case using a b d by auto
qed

lemma split_length: "length (split s) \<le> length s"
  using split_acc_length[of s] by (simp add: split_def)

lemma oneLetterMatchFails_counts:
  assumes "\<forall>t \<in> set wc. fst t < length name0 \<and> fst (snd t) < length name1"
  shows "oneLetterMatchFails name0 name1 wc k =
           Inr (k + length (filter (\<lambda>t. snd (snd t) = 0) wc))"
  using assms by (induction wc arbitrary: k) (auto simp: Let_def)

text \<open>What the gate computes: it counts every aligned pair whose score is 0.\<close>

lemma isWorthContinuing_counts_zero_scores:
  "\<exists>al. findWhichWordsMatchAndHowWell env name0 name1 = Inr al \<and>
     isWorthContinuing env name0 name1 =
       Inr (\<not> (1 \<le> length (filter (\<lambda>t. snd (snd t) = 0) al) \<and> length al \<le> 3))"
proof -
  obtain al where al: "findWhichWordsMatchAndHowWell env name0 name1 = Inr al"
    "set al \<subseteq> set (allScores env (split name0) (split name1))"
    by (rule findWhich_returns)
  have "\<forall>t \<in> set al. fst t < length name0 \<and> fst (snd t) < length name1"
    using alignment_indices_in_range[OF al(2)] split_length[of name0] split_length[of name1]
    by fastforce
  from oneLetterMatchFails_counts[OF this, of 0]
  have "isWorthContinuing env name0 name1 =
       Inr (\<not> (1 \<le> length (filter (\<lambda>t. snd (snd t) = 0) al) \<and> length al \<le> 3))"
    by (simp add: isWorthContinuing_def al(1))
  with al(1) show ?thesis by blast
qed

lemma split_ab: "split (str ''ab'') = [str ''ab'']"
  by (simp add: eval_strings)

lemma scores_ab_vs_cd: "allScores exampleEnv [str ''ab''] [str ''cd''] = [(0, 0, 0)]"
  by (simp add: allScores_def pairScore_def exampleEnv_simps ratio_ab_cd)
     (simp add: str_def)

lemma align_ab_vs_cd:
  "findWhichWordsMatchAndHowWell exampleEnv (str ''ab'') (str ''cd'') = Inr [(0, 0, 0)]"
  by (simp add: findWhichWordsMatchAndHowWell_def Let_def split_ab split_cd scores_ab_vs_cd
      validCombination_def comboSum_def mostLetters_def letterCount_def)
     (simp add: str_def)

text \<open>
  C7. The claim counts the pairs of score 0 in which one of the two aligned words is an
  initial. The code reads the characters \<^verbatim>\<open>name0[i]\<close> and \<^verbatim>\<open>name1[j]\<close> instead of the
  words, so it counts every pair of score 0: the names \<^verbatim>\<open>ab\<close> and \<^verbatim>\<open>cd\<close> have one
  aligned pair, of score 0, between two words of two letters, and the gate answers
  False where the claim says True.
\<close>

theorem worth_continuing_rejects_without_initial:
  "isWorthContinuing exampleEnv (str ''ab'') (str ''cd'') = Inr False \<and>
   findWhichWordsMatchAndHowWell exampleEnv (str ''ab'') (str ''cd'') = Inr [(0, 0, 0)] \<and>
   length (split (str ''ab'') ! 0) = 2 \<and> length (split (str ''cd'') ! 0) = 2"
proof -
  have "isWorthContinuing exampleEnv (str ''ab'') (str ''cd'') = Inr False"
    by (simp add: isWorthContinuing_def align_ab_vs_cd) (simp add: str_def index_def)
  then show ?thesis
    by (simp add: align_ab_vs_cd split_ab split_cd) (simp add: str_def)
qed

lemma split_abcde: "split (str ''abcde'') = [str ''abcde'']"
  by (simp add: eval_strings)

lemma split_axbde: "split (str ''axbde'') = [str ''axbde'']"
  by (simp add: eval_strings)

lemma ratio_axbde_abcde: "fuzz_ratio (str ''axbde'') (str ''abcde'') = 80"
  by (simp add: eval_fuzz str_def)

lemma pairScore_abcde_axbde: "pairScore exampleEnv (str ''abcde'') (str ''axbde'') = 80"
  by (simp add: pairScore_def exampleEnv_simps eval_fuzz str_def)

lemma align_abcde_axbde:
  "findWhichWordsMatchAndHowWell exampleEnv (str ''abcde'') (str ''axbde'') = Inr [(0, 0, 80)]"
  by (simp add: findWhichWordsMatchAndHowWell_def Let_def split_abcde split_axbde
      allScores_def pairScore_abcde_axbde
      validCombination_def comboSum_def mostLetters_def letterCount_def)
     (simp add: str_def)

lemma swapFix_abcde_axbde: "swapFixApplies exampleEnv (str ''abcde'') (str ''axbde'')"
  by (simp add: swapFixApplies_def exampleEnv_simps ratio_axbde_abcde)
     (simp add: str_def upt_rec)

text \<open>
  C9. The claim overwrites the left word only when the two adjacent differences are a
  transposition. The code tests \<^verbatim>\<open>word0[posI] != word1[posJ]\<close> twice and never
  \<^verbatim>\<open>word0[posJ] != word1[posI]\<close>: \<^verbatim>\<open>abcde\<close> and \<^verbatim>\<open>axbde\<close> have ratio 80 and differ
  at the positions 1 and 2 only, \<^verbatim>\<open>b\<close> at 1 on the left is \<^verbatim>\<open>b\<close> at 2 on the right, but
  \<^verbatim>\<open>c\<close> at 2 on the left is not \<^verbatim>\<open>x\<close> at 1 on the right, and the left word is
  overwritten all the same.
\<close>

theorem swap_repair_without_transposition:
  "fixSwappedChars exampleEnv (str ''abcde'') (str ''axbde'') =
     Inr (str ''axbde'', str ''axbde'') \<and>
   ratio exampleEnv (str ''axbde'') (str ''abcde'') = 80 \<and>
   filter (\<lambda>i. str ''abcde'' ! i \<noteq> str ''axbde'' ! i) [0..<5] = [1, 2] \<and>
   str ''abcde'' ! 1 = str ''axbde'' ! 2 \<and> str ''abcde'' ! 2 \<noteq> str ''axbde'' ! 1"
proof -
  have "fixSwappedChars exampleEnv (str ''abcde'') (str ''axbde'') =
     Inr (str ''axbde'', str ''axbde'')"
    by (simp add: fixSwappedChars_def getPairIndicesAndWords_def align_abcde_axbde
        split_abcde split_axbde NameEditor_def swapFix_abcde_axbde updateName0_def
        getModifiedNames_def)
  moreover have "filter (\<lambda>i. str ''abcde'' ! i \<noteq> str ''axbde'' ! i) [0..<5] = [1, 2]"
    by (simp add: str_def upt_rec)
  ultimately show ?thesis
    by (simp add: exampleEnv_simps ratio_axbde_abcde) (simp add: str_def)
qed

lemma consonantMatches_ab_cd:
  "consonantMatches exampleEnv (str ''ab cd'') (str ''cd'') [(1, 0, 100)] 0 = Inr 0"
  by (simp add: split_ab_cd split_cd consonantPairMatches_def reduceToSimpleConsonants_def
      replace_def isVowelLetter_def exampleEnv_simps fuzz_same Let_def)
     (simp add: str_def)


section \<open>Properties of the rule engine\<close>

lemma contains_iff: "contains sub s \<longleftrightarrow> (\<exists>ps ss. s = ps @ sub @ ss)"
proof (induction s)
  case Nil
  show ?case by auto
next
  case (Cons c cs)
  show ?case
  proof
    assume "contains sub (c # cs)"
    then consider "prefix sub (c # cs)" | "contains sub cs" by auto
    then show "\<exists>ps ss. c # cs = ps @ sub @ ss"
    proof cases
      case 1
      then obtain ss where "c # cs = sub @ ss" by (auto simp: prefix_def)
      then have "c # cs = [] @ sub @ ss" by simp
      then show ?thesis by blast
    next
      case 2
      with Cons obtain ps ss where "cs = ps @ sub @ ss" by blast
      then have "c # cs = (c # ps) @ sub @ ss" by simp
      then show ?thesis by blast
    qed
  next
    assume "\<exists>ps ss. c # cs = ps @ sub @ ss"
    then obtain ps ss where e: "c # cs = ps @ sub @ ss" by blast
    show "contains sub (c # cs)"
    proof (cases ps)
      case Nil
      with e have "prefix sub (c # cs)" by (simp add: prefix_def)
      then show ?thesis by simp
    next
      case (Cons p ps')
      with e have "cs = ps' @ sub @ ss" by simp
      then show ?thesis using Cons.IH by auto
    qed
  qed
qed

lemma searchSandwich_span:
  assumes "searchSandwich b m1 m2 t pos s = Some (a, e)"
  shows "\<exists>m ps ss. (m = m1 \<or> m = m2) \<and> pos \<le> a \<and> s = ps @ (b @ m @ t) @ ss \<and>
           length ps = a - pos \<and> e = a + length (b @ m @ t)"
  using assms
proof (induction s arbitrary: pos)
  case Nil
  then have "(b @ m1 @ t = [] \<or> b @ m2 @ t = []) \<and> a = pos \<and> e = pos"
    by (auto split: if_splits)
  then show ?case by auto
next
  case (Cons c cs)
  consider (one) "prefix (b @ m1 @ t) (c # cs)"
    | (two) "\<not> prefix (b @ m1 @ t) (c # cs)" "prefix (b @ m2 @ t) (c # cs)"
    | (later) "\<not> prefix (b @ m1 @ t) (c # cs)" "\<not> prefix (b @ m2 @ t) (c # cs)"
    by blast
  then show ?case
  proof cases
    case one
    then obtain ss where "c # cs = (b @ m1 @ t) @ ss" by (auto simp: prefix_def)
    then have "c # cs = [] @ (b @ m1 @ t) @ ss" by simp
    moreover from one Cons.prems have "a = pos" "e = pos + length (b @ m1 @ t)" by auto
    ultimately show ?thesis by (intro exI[of _ m1] exI[of _ "[]"] exI[of _ ss]) simp
  next
    case two
    then obtain ss where "c # cs = (b @ m2 @ t) @ ss" by (auto simp: prefix_def)
    then have "c # cs = [] @ (b @ m2 @ t) @ ss" by simp
    moreover from two Cons.prems have "a = pos" "e = pos + length (b @ m2 @ t)" by auto
    ultimately show ?thesis by (intro exI[of _ m2] exI[of _ "[]"] exI[of _ ss]) simp
  next
    case later
    with Cons.prems have "searchSandwich b m1 m2 t (Suc pos) cs = Some (a, e)" by simp
    from Cons.IH[OF this] obtain m ps ss where
      m: "m = m1 \<or> m = m2" "Suc pos \<le> a" "cs = ps @ (b @ m @ t) @ ss"
      "length ps = a - Suc pos" "e = a + length (b @ m @ t)" by blast
    have "c # cs = (c # ps) @ (b @ m @ t) @ ss" using m(3) by simp
    moreover have "length (c # ps) = a - pos" using m(2,4) by simp
    ultimately show ?thesis using m(1,2,5)
      by (intro exI[of _ m] exI[of _ "c # ps"] exI[of _ ss]) simp
  qed
qed

lemma overwrite_meat:
  assumes "word = ps @ (b @ m @ t) @ ss"
  shows "overwriteWithSubstring word m2 (length ps + length b)
           (length ps + length (b @ m @ t) - length t) = ps @ (b @ m2 @ t) @ ss"
  unfolding overwriteWithSubstring_def assms by simp


lemma search_stephen:
  "searchSandwich (str ''e'') (str ''ph'') (str ''f'') (str ''e'') 0 (str ''-stephen-'') = Some (3, 7)"
  "searchSandwich (str ''e'') (str ''ph'') (str ''f'') (str ''e'') 0 (str ''-stefen-'') = Some (3, 6)"
  by (simp_all add: str_def)


section \<open>Properties of the single-name cleaner\<close>

lemmas eval_clean = cleanNameByItself_def spaceOutWhitespace_def strip_def rstrip_def lower_def
  removeTitles_def removeFamilyRelations_def removeRomanNumerals_def fuseDutchPrefixes_def
  re_sub_def wholeWord_def wordStart_def boundary_def isword_def replace_def rawWord_def
  digitLetter26_def Let_def

lemma clean_mr: "cleanNameByItself exampleEnv (str ''mr'') = []"
  by (simp add: eval_clean exampleEnv_simps str_def isspace_def split_def)

lemma clean_empty: "cleanNameByItself exampleEnv [] = str ''_''"
  by (simp add: cleanNameByItself_def)

lemma clean_x_m_the_r: "cleanNameByItself exampleEnv (str ''x m the r'') = str ''x mr''"
  by (simp add: eval_clean exampleEnv_simps str_def isspace_def split_def)

lemma clean_x_mr: "cleanNameByItself exampleEnv (str ''x mr'') = str ''x''"
  by (simp add: eval_clean exampleEnv_simps str_def isspace_def split_def)

lemma clean_john_smith: "cleanNameByItself exampleEnv (str ''John  Smith, Jr.'') = str ''john smith''"
  by (simp add: eval_clean exampleEnv_simps str_def isspace_def split_def)

section \<open>Properties of the controller\<close>

lemma split_Nil [simp]: "split [] = []"
  by (simp add: split_def)

lemma allScores_Nil [simp]: "allScores env [] words1 = []"
  by (simp add: allScores_def)

lemma allScores_Nil2 [simp]: "allScores env words0 [] = []"
  by (simp add: allScores_def)

lemma findWhich_no_words:
  assumes "split name0 = [] \<or> split name1 = []"
  shows "findWhichWordsMatchAndHowWell env name0 name1 = Inr []"
proof -
  obtain al where al: "findWhichWordsMatchAndHowWell env name0 name1 = Inr al"
    "length al = min (length (split name0)) (length (split name1))"
    by (rule findWhich_returns)
  from al(2) assms have "al = []" by auto
  with al(1) show ?thesis by simp
qed

lemma bindC_simps [simp]:
  "bindC (uncached (Some (Inr x))) f cache = f x cache"
  "bindC (uncached (Some (Inl e))) f cache = Some (Inl e, cache)"
  "bindC (raising (Inr x)) f cache = f x cache"
  "bindC (raising (Inl e)) f cache = Some (Inl e, cache)"
  "bindC (returning x) f cache = f x cache"
  by (simp_all add: bindC_def uncached_def raising_def returning_def)

lemma returning_apply: "returning x cache = Some (Inr x, cache)"
  by (simp add: returning_def uncached_def)

lemma clean_title_only:
  assumes "unidecode env (str ''mr'') = str ''mr''"
  shows "cleanNameByItself env (str ''mr'') = []"
proof -
  have "lower (unidecode env (strip (collapseSpaces (spaceOutWhitespace (str ''mr''))))) = str ''mr''"
    using assms by (simp add: spaceOutWhitespace_def strip_def rstrip_def lower_def str_def isspace_def)
  then show ?thesis
    unfolding cleanNameByItself_def Let_def
    by (simp add: eval_clean str_def isspace_def split_def)
qed

lemma lastWord_Nil [simp]: "lastWord [] = Inl IndexError"
  by (simp add: lastWord_def)

lemma lower_Nil [simp]: "lower [] = []"
  by (simp add: lower_def)

lemma compareTwoNames_title_first:
  assumes "unidecode env (str ''mr'') = str ''mr''"
  shows "compareTwoNames env (str ''mr'') name1 cache = Some (Inl IndexError, cache)"
proof -
  have t: "eitherNameTooShort env [] n = Inr True" for n
    by (simp add: eitherNameTooShort_def findWhich_no_words)
  have g: "eitherNameTooGeneric env [] n = Inl IndexError" for n
    by (simp add: eitherNameTooGeneric_def findWhich_no_words hasRareSurname_def)
  show ?thesis
    by (simp add: compareTwoNames_def clean_title_only[OF assms] cleanNamesTogether_def t g Let_def)
qed


text \<open>
  C1. The claim: every call returns a record, and a name that cleaning empties (a bare
  title such as \<^verbatim>\<open>mr\<close>) yields the default record with \<open>match = False\<close>. The code: the
  cleaned form of \<^verbatim>\<open>mr\<close> is the empty string, not the sentinel \<^verbatim>\<open>_\<close>, and with it as
  first name \<^verbatim>\<open>_hasRareSurname\<close> reads \<^verbatim>\<open>name.split()[-1]\<close> of a name without words: the call
  raises IndexError, whatever the second name and the tables are.
\<close>

theorem compareTwoNames_raises_on_title_only:
  assumes "unidecode env (str ''mr'') = str ''mr''"
  shows "cleanNameByItself env (str ''mr'') = [] \<and>
         compareTwoNames env (str ''mr'') name1 cache = Some (Inl IndexError, cache)"
  using assms by (simp add: clean_title_only compareTwoNames_title_first)

theorem compareTwoNames_raises_on_title_only_witness:
  "unidecode exampleEnv (str ''mr'') = str ''mr'' \<and>
   cleanNameByItself exampleEnv (str ''mr'') = [] \<and>
   compareTwoNames exampleEnv (str ''mr'') (str ''john smith'') [] = Some (Inl IndexError, [])"
proof -
  have u: "unidecode exampleEnv (str ''mr'') = str ''mr''"
    by (simp add: exampleEnv_simps)
  from compareTwoNames_raises_on_title_only[OF u, of "str ''john smith''" "[]"] u
  show ?thesis by simp
qed

lemma find_never: "(\<And>x. \<not> P x) \<Longrightarrow> find P xs = None"
  by (induction xs) auto

lemma fold_unchanged: "(\<And>x s. f x s = s) \<Longrightarrow> fold f xs s = s"
  by (induction xs) auto

lemma removeNicknames_no_words:
  assumes "split name1 = []"
  shows "removeNicknames env name0 name1 = (name0, name1)"
proof -
  have "nicknameInOtherName env ws [] w = None" for ws w
    unfolding nicknameInOtherName_def by (rule find_never) simp
  then show ?thesis
    unfolding removeNicknames_def Let_def assms
    by (simp add: fold_unchanged)
qed

lemma clean_john_smith_any:
  assumes "unidecode env (str ''john smith'') = str ''john smith''"
  shows "cleanNameByItself env (str ''john smith'') = str ''john smith''"
proof -
  have "lower (unidecode env (strip (collapseSpaces (spaceOutWhitespace (str ''john smith''))))) =
      str ''john smith''"
    using assms by (simp add: spaceOutWhitespace_def strip_def rstrip_def lower_def str_def isspace_def)
  then show ?thesis
    unfolding cleanNameByItself_def Let_def
    by (simp add: eval_clean str_def isspace_def split_def)
qed

lemma lastWord_john_smith: "lastWord (lower (str ''john smith'')) = Inr (str ''smith'')"
  by (simp add: lastWord_def lower_def str_def split_def isspace_def)

lemma compareTwoNames_title_second:
  assumes "unidecode env (str ''mr'') = str ''mr''"
    and "unidecode env (str ''john smith'') = str ''john smith''"
    and "str ''smith'' \<in> set (topSurnames env)"
  shows "compareTwoNames env (str ''john smith'') (str ''mr'') cache =
     Some (Inr \<lparr> match = True, tooGeneric = True, tooShort = True,
                  attempt1 = Some (str ''john smith'', [], []), attempt2 = None,
                  attempt3 = None, attempt4 = None \<rparr>, cache)"
proof -
  have t: "eitherNameTooShort env n [] = Inr True" for n
    by (simp add: eitherNameTooShort_def findWhich_no_words)
  have g: "eitherNameTooGeneric env (str ''john smith'') [] = Inr True"
    using assms(3)
    by (simp add: eitherNameTooGeneric_def findWhich_no_words hasRareSurname_def
        lastWord_john_smith)
  have s: "spellingComparison env n [] = Inr (True, [])" for n
    by (simp add: spellingComparison_def findWhich_no_words)
  show ?thesis
    by (simp add: compareTwoNames_def clean_title_only[OF assms(1)]
        clean_john_smith_any[OF assms(2)] cleanNamesTogether_def t g s
        removeNicknames_no_words Let_def returning_apply)
qed

text \<open>
  C2. The claim: the verdict is the same in both orders. The code: with \<^verbatim>\<open>smith\<close> among
  the top surnames, \<^verbatim>\<open>john smith\<close> against \<^verbatim>\<open>mr\<close> returns \<open>match = True\<close> (the test for a rare
  surname stops at the first name, and an empty alignment counts as a match of all
  words), and \<^verbatim>\<open>mr\<close> against \<^verbatim>\<open>john smith\<close> raises IndexError.
\<close>

theorem verdict_not_symmetric_for_title_only:
  assumes "unidecode env (str ''mr'') = str ''mr''"
    and "unidecode env (str ''john smith'') = str ''john smith''"
    and "str ''smith'' \<in> set (topSurnames env)"
  shows "compareTwoNames env (str ''john smith'') (str ''mr'') cache =
     Some (Inr \<lparr> match = True, tooGeneric = True, tooShort = True,
                  attempt1 = Some (str ''john smith'', [], []), attempt2 = None,
                  attempt3 = None, attempt4 = None \<rparr>, cache) \<and>
   compareTwoNames env (str ''mr'') (str ''john smith'') cache = Some (Inl IndexError, cache)"
  using assms by (simp add: compareTwoNames_title_first compareTwoNames_title_second)

theorem verdict_not_symmetric_for_title_only_witness:
  "str ''smith'' \<in> set (topSurnames exampleEnv) \<and>
   compareTwoNames exampleEnv (str ''john smith'') (str ''mr'') [] =
     Some (Inr \<lparr> match = True, tooGeneric = True, tooShort = True,
                  attempt1 = Some (str ''john smith'', [], []), attempt2 = None,
                  attempt3 = None, attempt4 = None \<rparr>, []) \<and>
   compareTwoNames exampleEnv (str ''mr'') (str ''john smith'') [] = Some (Inl IndexError, [])"
proof -
  have u: "unidecode exampleEnv (str ''mr'') = str ''mr''"
    "unidecode exampleEnv (str ''john smith'') = str ''john smith''"
    by (simp_all add: exampleEnv_simps)
  have s: "str ''smith'' \<in> set (topSurnames exampleEnv)"
    by (simp add: exampleEnv_simps)
  from verdict_not_symmetric_for_title_only[OF u s, of "[]"] s show ?thesis by simp
qed

section \<open>The cache does not change any result\<close>

lemma transparent_uncached [intro!, simp]: "transparent env (uncached r)"
  by (cases r) (auto simp: transparent_def uncached_def)

lemma transparent_raising [intro!, simp]: "transparent env (raising r)"
  by (simp add: raising_def)

lemma transparent_returning [intro!, simp]: "transparent env (returning x)"
  by (simp add: returning_def)

lemma transparent_bindC [intro!]:
  assumes m: "transparent env m" and f: "\<And>x. transparent env (f x)"
  shows "transparent env (bindC m f)"
  unfolding transparent_def
proof (intro allI impI)
  fix c1 c2 assume c: "cacheConsistent env c1" "cacheConsistent env c2"
  show "case bindC m f c1 of
          None \<Rightarrow> bindC m f c2 = None
        | Some (r1, c1') \<Rightarrow>
            cacheConsistent env c1' \<and>
            (\<exists>c2'. bindC m f c2 = Some (r1, c2') \<and> cacheConsistent env c2')"
  proof (cases "m c1")
    case None
    with m c have "m c2 = None" by (auto simp: transparent_def)
    with None show ?thesis by (simp add: bindC_def)
  next
    case (Some p)
    obtain r c1' where p: "p = (r, c1')" by (cases p)
    from m c Some p obtain c2' where
      k: "cacheConsistent env c1'" "m c2 = Some (r, c2')" "cacheConsistent env c2'"
      by (fastforce simp: transparent_def)
    show ?thesis
    proof (cases r)
      case (Inl e)
      with Some p k show ?thesis by (simp add: bindC_def)
    next
      case (Inr x)
      from f[of x] k(1,3) have r:
        "case f x c1' of
           None \<Rightarrow> f x c2' = None
         | Some (r1, d1) \<Rightarrow>
             cacheConsistent env d1 \<and> (\<exists>d2. f x c2' = Some (r1, d2) \<and> cacheConsistent env d2)"
        by (simp add: transparent_def)
      have b: "bindC m f c1 = f x c1'" "bindC m f c2 = f x c2'"
        using Some p k(2) Inr by (simp_all add: bindC_def)
      show ?thesis unfolding b by (rule r)
    qed
  qed
qed

lemma cacheConsistent_hit:
  assumes "cacheConsistent env c" "map_of c w = Some ipa"
  shows "getIpaOfOneWordBody env w = Some (Inr ipa)"
    and "cacheConsistent env ((w, ipa) # filter (\<lambda>entry. fst entry \<noteq> w) c)"
proof -
  from assms(2) have "(w, ipa) \<in> set c" by (rule map_of_SomeD)
  with assms(1) show b: "getIpaOfOneWordBody env w = Some (Inr ipa)"
    by (auto simp: cacheConsistent_def)
  with assms(1) show "cacheConsistent env ((w, ipa) # filter (\<lambda>entry. fst entry \<noteq> w) c)"
    by (auto simp: cacheConsistent_def)
qed

lemma cacheConsistent_miss:
  assumes "cacheConsistent env c" "getIpaOfOneWordBody env w = Some (Inr ipa)"
  shows "cacheConsistent env (take 1000 ((w, ipa) # c))"
proof -
  have "set (take 1000 ((w, ipa) # c)) \<subseteq> set ((w, ipa) # c)" by (rule set_take_subset)
  moreover have "cacheConsistent env ((w, ipa) # c)"
    using assms by (auto simp: cacheConsistent_def)
  ultimately show ?thesis unfolding cacheConsistent_def by blast
qed

text \<open>With a consistent cache, the decorated function returns what its body returns.\<close>

lemma getIpaOfOneWord_body:
  assumes "cacheConsistent env c"
  shows "case getIpaOfOneWordBody env w of
           None \<Rightarrow> getIpaOfOneWord env w c = None
         | Some r \<Rightarrow> (\<exists>c'. getIpaOfOneWord env w c = Some (r, c') \<and> cacheConsistent env c')"
proof (cases "map_of c w")
  case None
  then show ?thesis
    using assms cacheConsistent_miss[OF assms, of w]
    by (auto simp: getIpaOfOneWord_def split: option.splits sum.splits)
next
  case (Some ipa)
  from cacheConsistent_hit[OF assms Some] Some show ?thesis
    by (simp add: getIpaOfOneWord_def)
qed

lemma transparent_getIpaOfOneWord [intro!, simp]: "transparent env (getIpaOfOneWord env w)"
  unfolding transparent_def
proof (intro allI impI)
  fix c1 c2 assume c: "cacheConsistent env c1" "cacheConsistent env c2"
  from getIpaOfOneWord_body[OF c(1), of w] getIpaOfOneWord_body[OF c(2), of w]
  show "case getIpaOfOneWord env w c1 of
          None \<Rightarrow> getIpaOfOneWord env w c2 = None
        | Some (r1, c1') \<Rightarrow>
            cacheConsistent env c1' \<and>
            (\<exists>c2'. getIpaOfOneWord env w c2 = Some (r1, c2') \<and> cacheConsistent env c2')"
    by (cases "getIpaOfOneWordBody env w") auto
qed

lemma transparent_getIpaOfWords [intro!, simp]: "transparent env (getIpaOfWords env ws)"
  by (induction ws) auto

lemma transparent_getPronunciation [intro!, simp]: "transparent env (getPronunciation env name)"
  unfolding getPronunciation_def by auto

lemma transparent_if [intro!]:
  "transparent env m \<Longrightarrow> transparent env n \<Longrightarrow> transparent env (if b then m else n)"
  by simp

lemma transparent_case_prod [intro!]:
  "(\<And>a b. transparent env (f a b)) \<Longrightarrow> transparent env (case p of (a, b) \<Rightarrow> f a b)"
  by (cases p) simp

lemma transparent_pronunciationComparison [intro!, simp]:
  "transparent env (pronunciationComparison env name0 name1)"
  unfolding pronunciationComparison_def Let_def by (intro transparent_bindC transparent_raising
      transparent_getPronunciation transparent_case_prod transparent_if transparent_returning)

lemma transparent_compareTwoNames: "transparent env (compareTwoNames env name0 name1)"
  unfolding compareTwoNames_def Let_def by (intro transparent_bindC transparent_raising
      transparent_uncached transparent_pronunciationComparison transparent_case_prod
      transparent_if transparent_returning)

lemma transparentD:
  assumes "transparent env m" "cacheConsistent env c1" "cacheConsistent env c2"
  shows "m c1 = None \<Longrightarrow> m c2 = None"
    and "m c1 = Some (r, c1') \<Longrightarrow>
           cacheConsistent env c1' \<and> (\<exists>c2'. m c2 = Some (r, c2') \<and> cacheConsistent env c2')"
proof -
  from assms have k: "case m c1 of
           None \<Rightarrow> m c2 = None
         | Some (r1, c1') \<Rightarrow>
             cacheConsistent env c1' \<and> (\<exists>c2'. m c2 = Some (r1, c2') \<and> cacheConsistent env c2')"
    unfolding transparent_def by blast
  show "m c1 = None \<Longrightarrow> m c2 = None" using k by simp
  show "m c1 = Some (r, c1') \<Longrightarrow>
           cacheConsistent env c1' \<and> (\<exists>c2'. m c2 = Some (r, c2') \<and> cacheConsistent env c2')"
    using k by simp
qed


lemma ipa_john: "getIpaOfOneWordBody exampleEnv (str ''john'') = Some (Inr [676, 593, 110])"
  by (simp add: getIpaOfOneWordBody_def exampleEnv_def pronunciationHailMary_def replace_def
      lower_def Let_def) (simp add: str_def)


section \<open>Cleaning a name in cleaned form\<close>

lemma letter_facts:
  assumes "isLowerLetter c"
  shows "\<not> isspace c" "isword c" "c \<noteq> 32" "c \<noteq> 39" "c \<noteq> 92" "\<not> (65 \<le> c \<and> c \<le> 90)"
    "c \<notin> set (str ''.,?;\"*()'')" "\<not> (49 \<le> c \<and> c \<le> 57)"
  using assms by (auto simp: isLowerLetter_def isspace_def isword_def str_def)

lemma space_facts: "\<not> isword 32" "isspace 32"
  by (simp_all add: isword_def isspace_def)

lemma spaceOutWhitespace_id:
  assumes "\<forall>c \<in> set s. isLowerLetter c \<or> c = 32"
  shows "spaceOutWhitespace s = s"
  unfolding spaceOutWhitespace_def using assms
  by (intro map_idI) (auto dest: letter_facts(1))

lemma collapseSpaces_id: "\<not> contains [32, 32] s \<Longrightarrow> collapseSpaces s = s"
  by (induction s rule: collapseSpaces.induct) auto

lemma strip_id:
  assumes "s \<noteq> []" "\<not> isspace (hd s)" "\<not> isspace (last s)"
  shows "strip s = s"
proof -
  have a: "dropWhile isspace s = s" using assms(1,2) by (cases s) auto
  have "dropWhile isspace (rev s) = rev s"
    using assms(1,3) by (cases "rev s") (auto simp: last_rev[symmetric] hd_rev)
  then show ?thesis by (simp add: strip_def rstrip_def a)
qed

lemma lower_id:
  assumes "\<forall>c \<in> set s. isLowerLetter c \<or> c = 32"
  shows "lower s = s"
  unfolding lower_def using assms
  by (intro map_idI) (auto dest: letter_facts(6))

lemma punctuation_id:
  assumes "\<forall>c \<in> set s. isLowerLetter c \<or> c = 32"
  shows "filter (\<lambda>c. c \<notin> set (str ''.,?;\"*()'')) s = s"
proof -
  have "32 \<notin> set (str ''.,?;\"*()'')" by (simp add: str_def)
  with assms show ?thesis
    by (intro filter_True) (auto dest: letter_facts(7))
qed

lemma dropSpacesAfterApostrophe_id:
  "\<forall>c \<in> set s. c \<noteq> 39 \<Longrightarrow> dropSpacesAfterApostrophe False s = s"
  by (induction s) auto

lemma resub_no_match:
  assumes "\<And>ps c cs. s = ps @ c # cs \<Longrightarrow>
             m (if ps = [] then prev else Some (last ps)) (c # cs) = None"
  shows "resub m repl prev 0 s = s"
  using assms
proof (induction s arbitrary: prev)
  case Nil
  show ?case by simp
next
  case (Cons c cs)
  from Cons.prems[of "[]" c cs] have h: "m prev (c # cs) = None" by simp
  have "resub m repl (Some c) 0 cs = cs"
  proof (rule Cons.IH)
    fix ps d ds assume e: "cs = ps @ d # ds"
    then have "c # cs = (c # ps) @ d # ds" by simp
    from Cons.prems[OF this] show "m (if ps = [] then Some c else Some (last ps)) (d # ds) = None"
      by (cases ps) auto
  qed
  with h show ?case by simp
qed

lemma re_sub_no_match:
  assumes "\<And>ps c cs. s = ps @ c # cs \<Longrightarrow>
             m (if ps = [] then None else Some (last ps)) (c # cs) = None"
  shows "re_sub m repl s = s"
  unfolding re_sub_def using assms by (rule resub_no_match)

lemma contains_set: "contains sub s \<Longrightarrow> set sub \<subseteq> set s"
  by (auto simp: contains_iff)

lemma replaceNonempty_absent: "\<not> contains old s \<Longrightarrow> replaceNonempty old new s = s"
  by (induction s) auto

lemma replace_absent: "old \<noteq> [] \<Longrightarrow> \<not> contains old s \<Longrightarrow> replace old new s = s"
  by (simp add: replace_def replaceNonempty_absent)

text \<open>
  In a string of letters and spaces, a match of \<^verbatim>\<open>\bw\<close> for a word of letters begins the
  string or follows a space, and a match of \<^verbatim>\<open>w\b\<close> ends the string or precedes a space.
\<close>

lemma start_boundary_padded:
  assumes L: "\<forall>c \<in> set s. isLowerLetter c \<or> c = 32"
    and s: "s = ps @ rest" and b: "boundary (if ps = [] then None else Some (last ps)) rest"
    and p: "prefix w rest" and w: "w \<noteq> []" "\<forall>c \<in> set w. isLowerLetter c"
  shows "\<exists>qs. 32 # s = qs @ 32 # rest"
proof (cases ps rule: rev_cases)
  case Nil
  with s show ?thesis by auto
next
  case (snoc ps' x)
  obtain r rs where r: "rest = r # rs" "r = hd w" using p w(1) by (cases rest; cases w) auto
  then have "isword r" using w by (cases w) (auto dest: letter_facts(2))
  with b snoc r have "\<not> isword x" by (simp add: boundary_def)
  moreover have "isLowerLetter x \<or> x = 32" using L s snoc by auto
  ultimately have "x = 32" by (auto dest: letter_facts(2))
  with s snoc have "32 # s = (32 # ps') @ 32 # rest" by simp
  then show ?thesis by blast
qed

lemma end_boundary_padded:
  assumes L: "\<forall>c \<in> set rest. isLowerLetter c \<or> c = 32"
    and p: "prefix w rest" and w: "w \<noteq> []" "\<forall>c \<in> set w. isLowerLetter c"
    and b: "boundary (Some (last w)) (drop (length w) rest)"
  shows "\<exists>ss. rest @ [32] = w @ 32 # ss"
proof -
  from p obtain t where t: "rest = w @ t" by (auto simp: prefix_def)
  have lw: "isword (last w)" using w by (auto dest: letter_facts(2))
  show ?thesis
  proof (cases t)
    case Nil
    with t show ?thesis by simp
  next
    case (Cons x xs)
    with b t lw have "\<not> isword x" by (simp add: boundary_def)
    moreover have "isLowerLetter x \<or> x = 32" using L t Cons by auto
    ultimately have "x = 32" by (auto dest: letter_facts(2))
    with t Cons show ?thesis by simp
  qed
qed

lemma wholeWord_absent:
  assumes L: "\<forall>c \<in> set s. isLowerLetter c \<or> c = 32"
    and w: "w \<noteq> []" "\<forall>c \<in> set w. isLowerLetter c"
    and n: "\<not> hasWord w s"
  shows "re_sub (wholeWord w) repl s = s"
proof (rule re_sub_no_match)
  fix ps c cs assume s: "s = ps @ c # cs"
  show "wholeWord w (if ps = [] then None else Some (last ps)) (c # cs) = None"
  proof (rule ccontr)
    assume "wholeWord w (if ps = [] then None else Some (last ps)) (c # cs) \<noteq> None"
    then have p: "prefix w (c # cs)"
      and b1: "boundary (if ps = [] then None else Some (last ps)) (c # cs)"
      and b2: "boundary (Some (last w)) (drop (length w) (c # cs))"
      using w(1) by (auto simp: wholeWord_def split: if_splits)
    from start_boundary_padded[OF L s b1 p w] obtain qs where
      q: "32 # s = qs @ 32 # c # cs" by blast
    have "\<forall>x \<in> set (c # cs). isLowerLetter x \<or> x = 32" using L s by auto
    from end_boundary_padded[OF this p w b2] obtain ss where
      e: "(c # cs) @ [32] = w @ 32 # ss" by blast
    have "32 # s @ [32] = qs @ 32 # ((c # cs) @ [32])" using q by simp
    also have "\<dots> = qs @ (32 # w @ [32]) @ ss" unfolding e by simp
    finally have "contains (32 # w @ [32]) (32 # s @ [32])"
      unfolding contains_iff by blast
    with n show False by (simp add: hasWord_def)
  qed
qed

lemma wordStart_absent:
  assumes L: "\<forall>c \<in> set s. isLowerLetter c \<or> c = 32"
    and w: "w \<noteq> []" "isLowerLetter (hd w)"
    and n: "\<not> contains (32 # w) (32 # s)"
  shows "re_sub (wordStart w) repl s = s"
proof (rule re_sub_no_match)
  fix ps c cs assume s: "s = ps @ c # cs"
  show "wordStart w (if ps = [] then None else Some (last ps)) (c # cs) = None"
  proof (rule ccontr)
    assume "wordStart w (if ps = [] then None else Some (last ps)) (c # cs) \<noteq> None"
    then have p: "prefix w (c # cs)"
      and b1: "boundary (if ps = [] then None else Some (last ps)) (c # cs)"
      by (auto simp: wordStart_def split: if_splits)
    have p1: "prefix [hd w] (c # cs)" using p w(1) by (cases w) auto
    from start_boundary_padded[OF L s b1 p1] w(2) obtain qs where
      q: "32 # s = qs @ 32 # c # cs" by auto
    from p obtain t where "c # cs = w @ t" by (auto simp: prefix_def)
    with q have "32 # s = qs @ (32 # w) @ t" by simp
    then have "contains (32 # w) (32 # s)" unfolding contains_iff by blast
    with n show False by simp
  qed
qed

lemma digitLetter26_absent:
  assumes "\<forall>c \<in> set s. isLowerLetter c \<or> c = 32"
  shows "re_sub digitLetter26 repl s = s"
proof (rule re_sub_no_match)
  fix ps c cs assume s: "s = ps @ c # cs"
  then have "isLowerLetter c \<or> c = 32" using assms by auto
  then have "\<not> (49 \<le> c \<and> c \<le> 57)" by (auto dest: letter_facts(8))
  then show "digitLetter26 (if ps = [] then None else Some (last ps)) (c # cs) = None"
    by (auto simp: digitLetter26_def split: list.splits)
qed

lemma split_acc_chars:
  "w \<in> set (split_acc cur s) \<Longrightarrow> set w \<subseteq> set cur \<union> {c \<in> set s. \<not> isspace c}"
proof (induction s arbitrary: cur)
  case Nil
  then show ?case by (auto split: if_splits)
next
  case (Cons c cs)
  show ?case
  proof (cases "isspace c")
    case True
    with Cons.prems have "w = cur \<or> w \<in> set (split_acc [] cs)" by (auto split: if_splits)
    then show ?thesis using Cons.IH[of "[]"] by auto
  next
    case False
    with Cons.prems have "w \<in> set (split_acc (cur @ [c]) cs)" by simp
    from Cons.IH[OF this] False show ?thesis by auto
  qed
qed

lemma split_word_letters:
  assumes "\<forall>c \<in> set s. isLowerLetter c \<or> c = 32" "w \<in> set (split s)"
  shows "\<forall>c \<in> set w. isLowerLetter c"
proof
  fix c assume "c \<in> set w"
  with split_acc_chars[of w "[]" s] assms(2) have "c \<in> set s" "\<not> isspace c"
    by (auto simp: split_def)
  with assms(1) show "isLowerLetter c" by (auto simp: space_facts)
qed

lemma join_Cons: "ws \<noteq> [] \<Longrightarrow> join (w # ws) = w @ 32 # join ws"
  by (cases ws) auto

lemma join_split_acc:
  assumes "\<forall>c \<in> set s. isspace c \<longrightarrow> c = 32" "\<not> contains [32, 32] s"
    "s \<noteq> [] \<longrightarrow> last s \<noteq> 32" "cur = [] \<longrightarrow> s = [] \<or> hd s \<noteq> 32"
  shows "join (split_acc cur s) = cur @ s"
  using assms
proof (induction s arbitrary: cur)
  case Nil
  show ?case by simp
next
  case (Cons c cs)
  have nd: "\<not> contains [32, 32] cs" using Cons.prems(2) by simp
  have sp: "\<forall>c \<in> set cs. isspace c \<longrightarrow> c = 32" using Cons.prems(1) by simp
  have la: "cs \<noteq> [] \<longrightarrow> last cs \<noteq> 32" using Cons.prems(3) by auto
  show ?case
  proof (cases "isspace c")
    case True
    then have c: "c = 32" using Cons.prems(1) by simp
    then have cur: "cur \<noteq> []" using Cons.prems(4) by auto
    have cs: "cs \<noteq> []" using Cons.prems(3) c by auto
    have hd: "hd cs \<noteq> 32" using Cons.prems(2) c cs by (cases cs) auto
    have j: "join (split_acc [] cs) = [] @ cs"
      by (rule Cons.IH[OF sp nd la]) (simp add: hd)
    then have "split_acc [] cs \<noteq> []" using cs by auto
    then show ?thesis using True cur j c by (simp add: join_Cons)
  next
    case False
    have "join (split_acc (cur @ [c]) cs) = (cur @ [c]) @ cs"
      by (rule Cons.IH[OF sp nd la]) simp
    with False show ?thesis by simp
  qed
qed

lemma roman_word_unchanged:
  assumes l: "\<forall>c \<in> set w. isLowerLetter c" and n: "w \<notin> set romanNumerals"
  shows "re_sub (wholeWords [str ''ii'', str ''iii'', str ''iv'']) repl w = w"
proof (rule re_sub_no_match)
  fix ps c cs assume s: "w = ps @ c # cs"
  let ?prev = "if ps = [] then None else Some (last ps)"
  have one: "wholeWord r ?prev (c # cs) = None"
    if r: "r \<in> set romanNumerals" for r
  proof (rule ccontr)
    assume "wholeWord r ?prev (c # cs) \<noteq> None"
    then have p: "prefix r (c # cs)" and b1: "boundary ?prev (c # cs)"
      and b2: "boundary (if r = [] then ?prev else Some (last r)) (drop (length r) (c # cs))"
      by (auto simp: wholeWord_def split: if_splits)
    have rl: "r \<noteq> []" "isword (last r)"
      using r by (auto simp: romanNumerals_def str_def isword_def)
    have cw: "isword c" using l s by (auto dest: letter_facts(2))
    have ps: "ps = []"
    proof (rule ccontr)
      assume "ps \<noteq> []"
      then have "isword (last ps)" using l s by (auto dest: letter_facts(2))
      with b1 cw \<open>ps \<noteq> []\<close> show False by (simp add: boundary_def)
    qed
    from p obtain t where t: "c # cs = r @ t" by (auto simp: prefix_def)
    have "t = []"
    proof (cases t)
      case Nil
      then show ?thesis .
    next
      case (Cons x xs)
      then have "isword x" using l s t by (auto dest: letter_facts(2))
      with b2 rl t Cons show ?thesis by (simp add: boundary_def)
    qed
    with t s ps have "w = r" by simp
    with n r show False by simp
  qed
  show "wholeWords [str ''ii'', str ''iii'', str ''iv''] ?prev (c # cs) = None"
    using one by (simp add: romanNumerals_def)
qed

lemma removeRomanNumerals_id:
  assumes L: "\<forall>c \<in> set s. isLowerLetter c \<or> c = 32" and "\<not> contains [32, 32] s"
    and "s \<noteq> []" "hd s \<noteq> 32" "last s \<noteq> 32"
    and n: "\<forall>w \<in> set (split s). w \<notin> set romanNumerals"
  shows "removeRomanNumerals s = s"
proof -
  have "map (re_sub (wholeWords [str ''ii'', str ''iii'', str ''iv'']) []) (split s) = split s"
    using n split_word_letters[OF L] by (intro map_idI roman_word_unchanged) auto
  moreover have "join (split s) = s"
  proof -
    have "\<forall>c \<in> set s. isspace c \<longrightarrow> c = 32" using L by (auto dest: letter_facts(1))
    from join_split_acc[OF this assms(2), of "[]"] assms(3,4,5) show ?thesis
      by (simp add: split_def)
  qed
  ultimately show ?thesis by (simp add: removeRomanNumerals_def)
qed

lemma contains_longer: "contains (a @ b) s \<Longrightarrow> contains a s"
  unfolding contains_iff by (metis append.assoc)

lemma removedWords_letters: "\<forall>w \<in> set removedWords. w \<noteq> [] \<and> (\<forall>c \<in> set w. isLowerLetter c)"
  by (simp add: removedWords_def str_def isLowerLetter_def)

lemma rawWord_absent:
  assumes "\<forall>c \<in> set s. isLowerLetter c \<or> c = 32"
  shows "replace (rawWord w) repl s = s"
proof (rule replace_absent)
  show "rawWord w \<noteq> []" by (simp add: rawWord_def)
  show "\<not> contains (rawWord w) s"
  proof
    assume "contains (rawWord w) s"
    then have "92 \<in> set s" using contains_set[of "rawWord w" s] by (auto simp: rawWord_def)
    with assms show False by (auto dest: letter_facts(5))
  qed
qed

lemma cleaned_form_unchanged:
  assumes c: "inCleanedForm name" and u: "unidecode env name = name"
  shows "cleanNameByItself env name = name"
proof -
  from c have ne: "name \<noteq> []" and L: "\<forall>c \<in> set name. isLowerLetter c \<or> c = 32"
    and h: "hd name \<noteq> 32" and la: "last name \<noteq> 32" and nd: "\<not> contains [32, 32] name"
    and rw: "\<forall>w \<in> set removedWords. \<not> hasWord w name"
    and rt: "\<forall>t \<in> set removedTexts. \<not> contains t name"
    and ro: "\<forall>w \<in> set (split name). w \<notin> set romanNumerals"
    and du: "\<not> contains (str '' van de'') (32 # name)"
    by (simp_all add: inCleanedForm_def)
  have hs: "\<not> isspace (hd name)" using L ne h by (cases name) (auto dest: letter_facts(1))
  have ls: "\<not> isspace (last name)" using L ne la last_in_set[OF ne] by (auto dest: letter_facts(1))
  have wordPass: "re_sub (wholeWord w) [] name = name" if "w \<in> set removedWords" for w
    using that rw removedWords_letters by (intro wholeWord_absent[OF L]) auto
  have textPass: "replace t r name = name" if "t \<in> set removedTexts" for t r
    using that rt by (intro replace_absent) (auto simp: removedTexts_def str_def)
  have apo: "\<forall>c \<in> set name. c \<noteq> 39" using L by (auto dest: letter_facts(4))
  have titles: "removeTitles name = name"
    by (simp add: removeTitles_def Let_def wordPass textPass rawWord_absent[OF L] removedWords_def
        removedTexts_def)
  have family: "removeFamilyRelations name = name"
    by (simp add: removeFamilyRelations_def Let_def wordPass textPass removedWords_def removedTexts_def)
  have d1: "\<not> contains (32 # str ''van de'') (32 # name)"
    using du by (simp add: str_def)
  have d2: "\<not> contains (32 # str ''van den'') (32 # name)"
    "\<not> contains (32 # str ''van der'') (32 # name)"
    using d1 contains_longer[of "32 # str ''van de''" "str ''n''" "32 # name"]
      contains_longer[of "32 # str ''van de''" "str ''r''" "32 # name"]
    by (auto simp: str_def)
  have dutch: "fuseDutchPrefixes name = name"
    using d1 d2
    by (simp add: fuseDutchPrefixes_def Let_def wordStart_absent[OF L] str_def isLowerLetter_def)
  have first: "lower (unidecode env (strip (collapseSpaces (spaceOutWhitespace name)))) = name"
    by (simp add: spaceOutWhitespace_id[OF L] collapseSpaces_id[OF nd] strip_id[OF ne hs ls] u
        lower_id[OF L])
  show ?thesis
    unfolding cleanNameByItself_def Let_def first
    by (simp add: ne punctuation_id[OF L] dropSpacesAfterApostrophe_id[OF apo] titles family
        textPass removedTexts_def collapseSpaces_id[OF nd] digitLetter26_absent[OF L]
        removeRomanNumerals_id[OF L nd ne h la ro] strip_id[OF ne hs ls] dutch)
qed

lemma john_smith_cleaned_form: "inCleanedForm (str ''john smith'')"
  by (simp add: inCleanedForm_def hasWord_def removedWords_def removedTexts_def
      romanNumerals_def isLowerLetter_def str_def split_def isspace_def)




end
